theory Spec2Isabelle
  imports Complex_Main "HOL-Library.AList"
begin

text \<open>
  A shallow embedding of three modules of the validator command line tool and its hub:

  \<^item> the network module (\<open>measureLatency\<close>, \<open>performHeadRequest\<close> and the probes
    \<open>getNetworkLatency\<close>, \<open>getDnsResolutionTime\<close>, \<open>getTcpConnectionTime\<close>);
  \<^item> the connection module of the validator (\<open>measureAccurateLatency\<close>, \<open>getTcpLatency\<close>,
    \<open>getStatusCode\<close> and the handler of a \<open>validate\<close> message inside \<open>connectWebsocket\<close>);
  \<^item> the hub server (the \<open>signup\<close>, \<open>validate\<close> and \<open>close\<close> handlers over the
    \<open>validators\<close> map).

  The code is asynchronous JavaScript over the network. Everything the program receives
  from outside (subprocess output, DNS and TCP results, HTTP responses, the URL parser of
  the platform, random draws, the clock) is a parameter of the model, so that a theorem
  about a function holds for every behaviour of the outside world. Each way a call can end
  is a value: a promise that resolves, a promise that rejects, an exception nobody catches,
  and, for the one loop without a bound, a promise that never settles.
\<close>

section \<open>JavaScript values and promises\<close>

text \<open>
  A JavaScript slot that holds either a value, \<open>null\<close> or \<open>undefined\<close> (a property that
  was never written). Numbers are modelled as exact rationals: the millisecond readings of
  the source are differences of \<open>Date.now()\<close> (integers) or decimals read from the output
  of \<open>ping\<close>; floating-point rounding and \<open>NaN\<close> are not modelled.
\<close>

datatype 'a js = Undefined | Null | Val 'a

type_synonym number = rat

text \<open>JavaScript truthiness of a number slot: \<open>null\<close>, \<open>undefined\<close> and \<open>0\<close> are falsy.\<close>

fun truthyNum :: "number js \<Rightarrow> bool" where
  "truthyNum Undefined = False"
| "truthyNum Null = False"
| "truthyNum (Val n) = (n \<noteq> 0)"

text \<open>Truthiness of a string slot: \<open>undefined\<close> and the empty string are falsy.\<close>

fun truthyStr :: "string option \<Rightarrow> bool" where
  "truthyStr None = False"
| "truthyStr (Some s) = (s \<noteq> [])"

text \<open>
  How an asynchronous call ends. \<open>Resolved\<close> and \<open>Rejected\<close> are the two ways a promise
  settles. \<open>Uncaught\<close> is an exception thrown inside an event callback that runs outside
  every \<open>try\<close> block and outside the promise executor: the promise never settles and the
  exception reaches the process as an uncaught exception.
\<close>

datatype 'a promise = Resolved 'a | Rejected string | Uncaught string

section \<open>The network module (measureLatency and its probes)\<close>

subsection \<open>The regular expressions of getNetworkLatency\<close>

definition isDigit :: "char \<Rightarrow> bool" where
  "isDigit c = (c \<in> set ''0123456789'')"

text \<open>The ASCII members of the class \<open>\s\<close>: tab, line feed, vertical tab, form feed,
  carriage return and space.\<close>

definition isSpace :: "char \<Rightarrow> bool" where
  "isSpace c = (c \<in> set [CHR 0x09, CHR 0x0A, CHR 0x0B, CHR 0x0C, CHR 0x0D, CHR 0x20])"

fun stripPrefix :: "string \<Rightarrow> string \<Rightarrow> string option" where
  "stripPrefix [] s = Some s"
| "stripPrefix (p # ps) [] = None"
| "stripPrefix (p # ps) (c # cs) = (if p = c then stripPrefix ps cs else None)"

text \<open>
  The class \<open>\s\<close> on the output of \<open>ping\<close>, which the model holds as the UTF-8 bytes of
  the decoded string. The ASCII members (\<open>isSpace\<close>) are single bytes; the other members
  (U+00A0, U+1680, U+2000 to U+200A, U+2028, U+2029, U+202F, U+205F, U+3000, U+FEFF) are
  the byte sequences of \<open>unicodeSpaces\<close>. \<open>stripSpace\<close> removes one white-space character
  from the head of the input, \<open>skipSpaces\<close> is \<open>\s*\<close>: in each pattern of the source it is
  followed by \<open>=\<close>, a digit or \<open>ms\<close>, none of which starts a white-space character, so the
  greedy reading is the only one.
\<close>

definition unicodeSpaces :: "string list" where
  "unicodeSpaces =
     [[CHR 0xC2, CHR 0xA0], [CHR 0xE1, CHR 0x9A, CHR 0x80],
      [CHR 0xE2, CHR 0x80, CHR 0x80], [CHR 0xE2, CHR 0x80, CHR 0x81],
      [CHR 0xE2, CHR 0x80, CHR 0x82], [CHR 0xE2, CHR 0x80, CHR 0x83],
      [CHR 0xE2, CHR 0x80, CHR 0x84], [CHR 0xE2, CHR 0x80, CHR 0x85],
      [CHR 0xE2, CHR 0x80, CHR 0x86], [CHR 0xE2, CHR 0x80, CHR 0x87],
      [CHR 0xE2, CHR 0x80, CHR 0x88], [CHR 0xE2, CHR 0x80, CHR 0x89],
      [CHR 0xE2, CHR 0x80, CHR 0x8A], [CHR 0xE2, CHR 0x80, CHR 0xA8],
      [CHR 0xE2, CHR 0x80, CHR 0xA9], [CHR 0xE2, CHR 0x80, CHR 0xAF],
      [CHR 0xE2, CHR 0x81, CHR 0x9F], [CHR 0xE3, CHR 0x80, CHR 0x80],
      [CHR 0xEF, CHR 0xBB, CHR 0xBF]]"

fun stripAny :: "string list \<Rightarrow> string \<Rightarrow> string option" where
  "stripAny [] s = None"
| "stripAny (p # ps) s =
     (case stripPrefix p s of Some r \<Rightarrow> Some r | None \<Rightarrow> stripAny ps s)"

definition stripSpace :: "string \<Rightarrow> string option" where
  "stripSpace s =
     (case s of
        [] \<Rightarrow> None
      | c # cs \<Rightarrow> if isSpace c then Some cs else stripAny unicodeSpaces s)"

lemma stripPrefix_length: "stripPrefix p s = Some r \<Longrightarrow> length s = length p + length r"
  by (induction p s rule: stripPrefix.induct) (auto split: if_splits)

lemma stripAny_shorter:
  "stripAny ps s = Some r \<Longrightarrow> [] \<notin> set ps \<Longrightarrow> length r < length s"
  by (induction ps) (auto split: option.splits dest: stripPrefix_length)

lemma unicodeSpaces_nonempty: "[] \<notin> set unicodeSpaces"
  by (simp add: unicodeSpaces_def)

lemma stripSpace_shorter: "stripSpace s = Some r \<Longrightarrow> length r < length s"
proof (cases s)
  case Nil
  then show "stripSpace s = Some r \<Longrightarrow> length r < length s"
    by (simp add: stripSpace_def)
next
  case (Cons c cs)
  assume a: "stripSpace s = Some r"
  show "length r < length s"
  proof (cases "isSpace c")
    case True
    with a Cons show ?thesis by (simp add: stripSpace_def)
  next
    case False
    with a Cons have "stripAny unicodeSpaces s = Some r" by (simp add: stripSpace_def)
    then show ?thesis by (rule stripAny_shorter) (rule unicodeSpaces_nonempty)
  qed
qed

function skipSpaces :: "string \<Rightarrow> string" where
  "skipSpaces s = (case stripSpace s of None \<Rightarrow> s | Some r \<Rightarrow> skipSpaces r)"
  by pat_completeness auto
termination
  by (relation "measure length") (auto dest: stripSpace_shorter)

declare skipSpaces.simps [simp del]

text \<open>\<open>[=<]\<close>: one character of the class.\<close>

fun eqOrLt :: "string \<Rightarrow> string option" where
  "eqOrLt [] = None"
| "eqOrLt (c # cs) = (if c = CHR ''='' \<or> c = CHR ''<'' then Some cs else None)"

text \<open>\<open>(\d+)\<close>: the longest non-empty run of digits, and the rest of the input.\<close>

definition digits1 :: "string \<Rightarrow> (string \<times> string) option" where
  "digits1 s =
     (if takeWhile isDigit s = [] then None
      else Some (takeWhile isDigit s, dropWhile isDigit s))"

text \<open>
  \<open>(\d+(\.\d+)?)\<close>. In each pattern of the source the group is followed by \<open>\s*ms\<close>, so
  backtracking into a shorter run of digits or out of the optional fraction can never
  succeed (the next character would be a digit or a dot): the greedy reading is the only one.
\<close>

definition decimal :: "string \<Rightarrow> (string \<times> string) option" where
  "decimal s =
     (case digits1 s of
        None \<Rightarrow> None
      | Some (ip, r) \<Rightarrow>
          (case stripPrefix ''.'' r of
             None \<Rightarrow> Some (ip, r)
           | Some r' \<Rightarrow>
               (case digits1 r' of
                  None \<Rightarrow> Some (ip, r)
                | Some (fp, r'') \<Rightarrow> Some (ip @ ''.'' @ fp, r''))))"

text \<open>\<open>\s*ms\<close> after a capture: the capture is returned when the tail matches.\<close>

definition thenMs :: "bool \<Rightarrow> (string \<times> string) option \<Rightarrow> string option" where
  "thenMs spaces m =
     (case m of
        None \<Rightarrow> None
      | Some (cap, r) \<Rightarrow>
          (case stripPrefix ''ms'' (if spaces then skipSpaces r else r) of
             None \<Rightarrow> None
           | Some _ \<Rightarrow> Some cap))"

text \<open>Each pattern anchored at the head of the input; the result is capture group 1.\<close>

definition averageAt :: "string \<Rightarrow> string option" where
  \<comment> \<open>\<open>/Average\s*=\s*(\d+)ms/\<close>\<close>
  "averageAt s =
     (case stripPrefix ''Average'' s of
        None \<Rightarrow> None
      | Some r \<Rightarrow>
          (case stripPrefix ''='' (skipSpaces r) of
             None \<Rightarrow> None
           | Some r' \<Rightarrow> thenMs False (digits1 (skipSpaces r'))))"

definition timeIntAt :: "string \<Rightarrow> string option" where
  \<comment> \<open>\<open>/time[=<](\d+)ms/\<close>\<close>
  "timeIntAt s =
     (case stripPrefix ''time'' s of
        None \<Rightarrow> None
      | Some r \<Rightarrow> (case eqOrLt r of None \<Rightarrow> None | Some r' \<Rightarrow> thenMs False (digits1 r')))"

definition timeDecAt :: "string \<Rightarrow> string option" where
  \<comment> \<open>\<open>/time=(\d+(\.\d+)?)\s*ms/\<close>\<close>
  "timeDecAt s =
     (case stripPrefix ''time='' s of None \<Rightarrow> None | Some r \<Rightarrow> thenMs True (decimal r))"

definition genericAt :: "string \<Rightarrow> string option" where
  \<comment> \<open>\<open>/[=<](\d+(\.\d+)?)\s*ms/\<close>\<close>
  "genericAt s = (case eqOrLt s of None \<Rightarrow> None | Some r \<Rightarrow> thenMs True (decimal r))"

text \<open>\<open>String.prototype.match\<close> without the \<open>g\<close> flag: the leftmost match.\<close>

fun matchFirst :: "(string \<Rightarrow> string option) \<Rightarrow> string \<Rightarrow> string option" where
  "matchFirst m [] = m []"
| "matchFirst m (c # cs) =
     (case m (c # cs) of Some cap \<Rightarrow> Some cap | None \<Rightarrow> matchFirst m cs)"

definition digitVal :: "char \<Rightarrow> nat" where
  "digitVal c = of_char c - 48"

definition parseNat :: "string \<Rightarrow> nat" where
  "parseNat s = foldl (\<lambda>n c. 10 * n + digitVal c) 0 s"

text \<open>\<open>parseInt(s, 10)\<close> and \<open>parseFloat(s)\<close> on the captures above (digits, or digits
  with a fraction).\<close>

definition parseInt :: "string \<Rightarrow> number" where
  "parseInt s = of_nat (parseNat (takeWhile isDigit s))"

definition parseFloat :: "string \<Rightarrow> number" where
  "parseFloat s =
     (case stripPrefix ''.'' (dropWhile isDigit s) of
        None \<Rightarrow> of_nat (parseNat (takeWhile isDigit s))
      | Some fp \<Rightarrow>
          of_nat (parseNat (takeWhile isDigit s))
          + of_nat (parseNat (takeWhile isDigit fp)) / 10 ^ length (takeWhile isDigit fp))"

subsection \<open>The environment of the network module\<close>

text \<open>What \<open>new URL(s)\<close> exposes to the source.\<close>

record url =
  protocol :: string
  hostname :: string
  pathname :: string
  search :: string

text \<open>The options object handed to \<open>http.request\<close> / \<open>https.request\<close> by makeRequest.
  \<open>secure\<close> says which of the two modules is used.\<close>

record head_options =
  secure :: bool
  ho_hostname :: string
  ho_path :: string
  ho_port :: int
  ho_timeout :: number

text \<open>What happens to one HEAD request: the response callback runs (status code, the
  \<open>Location\<close> header if any, milliseconds since the request was issued), or the \<open>error\<close>
  event, or the \<open>timeout\<close> event.\<close>

datatype head_event =
    HeadResponse int "string option" number
  | HeadError string
  | HeadTimeout

text \<open>What \<open>axios.get\<close> does (with \<open>validateStatus: () => true\<close> every response resolves):
  a response with its status, the \<open>res\<close> object of the last request if there is one (holding
  \<open>responseUrl\<close>) and the elapsed milliseconds; or a rejection.\<close>

datatype get_event =
    GetResponse int "string js option" number
  | GetError string

datatype tcp_event = TcpConnect number | TcpTimeout | TcpError

record get_config =
  gc_timeout :: number
  gc_maxRedirects :: int

text \<open>
  Everything outside the program: the platform flag, the \<open>ping\<close> subprocess (\<open>None\<close>: execSync
  throws, on a non-zero exit or after its 3000 ms timeout), the resolver (error flag and
  elapsed milliseconds), the TCP stack, the URL parser (\<open>None\<close>: the constructor throws
  a TypeError) and the HTTP servers. \<open>headRequest\<close> is indexed by the hop number so that a
  server may answer each request of one chain differently.
\<close>

record net_env =
  isWindows :: bool
  execSync :: "string \<Rightarrow> string option"
  dnsLookup :: "string \<Rightarrow> bool \<times> number"
  tcpConnect :: "string \<Rightarrow> int \<Rightarrow> tcp_event"
  parseURL :: "string \<Rightarrow> url option"
  resolveURL :: "string \<Rightarrow> string \<Rightarrow> string option"
  headRequest :: "nat \<Rightarrow> head_options \<Rightarrow> head_event"
  axiosGet :: "string \<Rightarrow> get_config \<Rightarrow> get_event"

subsection \<open>The three exported probes\<close>

definition getNetworkLatency :: "net_env \<Rightarrow> string \<Rightarrow> number js promise" where
  "getNetworkLatency env host =
     (case execSync env ((if isWindows env then ''ping -n 1 '' else ''ping -c 1 '') @ host) of
        None \<Rightarrow> Resolved Null
      | Some pingOutput \<Rightarrow>
          (case (if isWindows env
                 then (case matchFirst averageAt pingOutput of
                         Some cap \<Rightarrow> Some (parseInt cap)
                       | None \<Rightarrow>
                           (case matchFirst timeIntAt pingOutput of
                              Some cap \<Rightarrow> Some (parseInt cap)
                            | None \<Rightarrow> None))
                 else (case matchFirst timeDecAt pingOutput of
                         Some cap \<Rightarrow> Some (parseFloat cap)
                       | None \<Rightarrow> None)) of
             Some n \<Rightarrow> Resolved (Val n)
           | None \<Rightarrow>
               (case matchFirst genericAt pingOutput of
                  Some cap \<Rightarrow> Resolved (Val (parseFloat cap))
                | None \<Rightarrow> Resolved Null)))"

definition getDnsResolutionTime :: "net_env \<Rightarrow> string \<Rightarrow> number js promise" where
  "getDnsResolutionTime env host =
     (case dnsLookup env host of (err, resolveTime) \<Rightarrow>
        Resolved (if err then Null else Val resolveTime))"

text \<open>
  \<open>socket.connect(port, hostname)\<close> validates the port before anything asynchronous
  happens and throws a RangeError (ERR_SOCKET_BAD_PORT) for a port outside 0..65535. The
  call stands in the promise executor, so the throw rejects the promise.
\<close>

definition validPort :: "int \<Rightarrow> bool" where
  "validPort port = (0 \<le> port \<and> port < 65536)"

definition getTcpConnectionTime :: "net_env \<Rightarrow> string \<Rightarrow> int \<Rightarrow> number js promise" where
  "getTcpConnectionTime env host port =
     (if \<not> validPort port then Rejected ''ERR_SOCKET_BAD_PORT''
      else (case tcpConnect env host port of
              TcpConnect connectTime \<Rightarrow> Resolved (Val connectTime)
            | TcpTimeout \<Rightarrow> Resolved Null
            | TcpError \<Rightarrow> Resolved Null))"

subsection \<open>performHeadRequest\<close>

text \<open>The object performHeadRequest resolves with: \<open>{time, status, finalUrl}\<close> from a
  response, or \<open>{time, status: 0, error}\<close> from its own \<open>catch\<close> block.\<close>

record head_result =
  hr_time :: number
  hr_status :: int
  hr_finalUrl :: "string js"
  hr_error :: "string js"

definition isRedirect :: "int \<Rightarrow> bool" where
  "isRedirect statusCode = (statusCode \<in> set [301, 302, 303, 307, 308])"

text \<open>
  The closure \<open>makeRequest(currentUrl, redirectCount)\<close>. \<open>port\<close>, \<open>timeout\<close> and
  \<open>maxRedirects\<close> are the variables it captures; \<open>elapsed\<close> is the clock reading
  \<open>Date.now() - startTime\<close> at the moment the request is issued. The first call
  (\<open>redirectCount = 0\<close>) runs inside the promise executor, where a throw rejects the promise;
  every later call runs inside the response callback of the previous request, where a throw
  is caught by nobody.
\<close>

function makeRequest ::
  "net_env \<Rightarrow> int \<Rightarrow> number \<Rightarrow> int \<Rightarrow> string \<Rightarrow> nat \<Rightarrow> number \<Rightarrow> head_result promise"
where
  "makeRequest env port tmo maxRedir currentUrl redirectCount elapsed =
     (case parseURL env currentUrl of
        None \<Rightarrow>
          (if redirectCount = 0 then Rejected ''Invalid URL'' else Uncaught ''Invalid URL'')
      | Some u \<Rightarrow>
          (case headRequest env redirectCount
                  \<lparr>secure = (protocol u = ''https:''), ho_hostname = hostname u,
                   ho_path = pathname u @ search u, ho_port = port, ho_timeout = tmo\<rparr> of
             HeadError e \<Rightarrow> Rejected e
           | HeadTimeout \<Rightarrow> Rejected ''Request timed out''
           | HeadResponse statusCode location dt \<Rightarrow>
               (if isRedirect statusCode then
                  (if maxRedir \<le> int redirectCount then Rejected ''Too many redirects''
                   else if \<not> truthyStr location then Rejected ''Redirect location missing''
                   else (case resolveURL env (the location) currentUrl of
                           None \<Rightarrow> Uncaught ''Invalid URL''
                         | Some redirectUrl \<Rightarrow>
                             makeRequest env port tmo maxRedir redirectUrl
                               (redirectCount + 1) (elapsed + dt)))
                else Resolved \<lparr>hr_time = elapsed + dt, hr_status = statusCode,
                                hr_finalUrl = Val currentUrl, hr_error = Undefined\<rparr>)))"
  by pat_completeness auto
termination
  by (relation "measure (\<lambda>(env, port, tmo, maxRedir, currentUrl, redirectCount, elapsed).
                  nat (maxRedir - int redirectCount))") auto

declare makeRequest.simps [simp del]

definition performHeadRequest ::
  "net_env \<Rightarrow> string \<Rightarrow> number \<Rightarrow> int \<Rightarrow> head_result promise"
where
  "performHeadRequest env u tmo maxRedir =
     (case parseURL env u of
        None \<Rightarrow>
          Resolved \<lparr>hr_time = 0, hr_status = 0, hr_finalUrl = Undefined,
                    hr_error = Val ''Invalid URL''\<rparr>
      | Some urlObj \<Rightarrow>
          makeRequest env (if protocol urlObj = ''https:'' then 443 else 80) tmo maxRedir u 0 0)"

subsection \<open>measureLatency\<close>

record options =
  o_timeout :: "number option"
  o_preferNetworkPing :: "bool option"
  o_measureDns :: "bool option"
  o_useHeadRequest :: "bool option"
  o_maxRedirects :: "int option"

record config =
  timeout :: number
  preferNetworkPing :: bool
  measureDns :: bool
  useHeadRequest :: bool
  maxRedirects :: int

definition defaults :: config where
  "defaults = \<lparr>timeout = 3000, preferNetworkPing = True, measureDns = True,
               useHeadRequest = True, maxRedirects = 5\<rparr>"

definition noOptions :: options where
  "noOptions = \<lparr>o_timeout = None, o_preferNetworkPing = None, o_measureDns = None,
                o_useHeadRequest = None, o_maxRedirects = None\<rparr>"

text \<open>\<open>{ ...defaults, ...options }\<close>\<close>

definition mergeOptions :: "options \<Rightarrow> config" where
  "mergeOptions opts =
     \<lparr>timeout = (case o_timeout opts of None \<Rightarrow> timeout defaults | Some v \<Rightarrow> v),
      preferNetworkPing =
        (case o_preferNetworkPing opts of None \<Rightarrow> preferNetworkPing defaults | Some v \<Rightarrow> v),
      measureDns = (case o_measureDns opts of None \<Rightarrow> measureDns defaults | Some v \<Rightarrow> v),
      useHeadRequest =
        (case o_useHeadRequest opts of None \<Rightarrow> useHeadRequest defaults | Some v \<Rightarrow> v),
      maxRedirects =
        (case o_maxRedirects opts of None \<Rightarrow> maxRedirects defaults | Some v \<Rightarrow> v)\<rparr>"

text \<open>The object measureLatency resolves with. A field the object does not have is
  \<open>Undefined\<close>.\<close>

record measurement =
  m_url :: string
  error :: "string js"
  networkPing :: "number js"
  httpLatency :: "number js"
  dnsTime :: "number js"
  status :: "int js"
  finalUrl :: "string js"
  bestLatency :: "number js"

text \<open>The object returned by the outer \<open>catch\<close> block.\<close>

definition failure :: "string \<Rightarrow> string \<Rightarrow> measurement" where
  "failure u msg =
     \<lparr>m_url = u, error = Val msg, networkPing = Null, httpLatency = Null,
      dnsTime = Undefined, status = Val 0, finalUrl = Undefined, bestLatency = Undefined\<rparr>"

text \<open>
  The \<open>try { axios.get ... } catch { results.status = 0 }\<close> block; the source has the same
  text twice, as the fallback of the HEAD path and as the path taken without HEAD. The
  three assignments run in order, so when reading \<open>response.request.res.responseUrl\<close>
  throws, \<open>httpLatency\<close> is already written and \<open>status\<close> is overwritten with 0.
\<close>

definition axiosCheck :: "net_env \<Rightarrow> string \<Rightarrow> config \<Rightarrow> measurement \<Rightarrow> measurement" where
  "axiosCheck env u cfg results =
     (case axiosGet env u \<lparr>gc_timeout = timeout cfg, gc_maxRedirects = maxRedirects cfg\<rparr> of
        GetError e \<Rightarrow> results\<lparr>status := Val 0\<rparr>
      | GetResponse st res dt \<Rightarrow>
          (case res of
             None \<Rightarrow> results\<lparr>httpLatency := Val dt, status := Val 0\<rparr>
           | Some responseUrl \<Rightarrow>
               results\<lparr>httpLatency := Val dt, status := Val st, finalUrl := responseUrl\<rparr>))"

text \<open>\<open>config.preferNetworkPing && results.networkPing ? results.networkPing
  : results.httpLatency\<close>\<close>

definition chooseBest :: "config \<Rightarrow> measurement \<Rightarrow> measurement" where
  "chooseBest cfg results =
     results\<lparr>bestLatency :=
       (if preferNetworkPing cfg \<and> truthyNum (networkPing results)
        then networkPing results else httpLatency results)\<rparr>"

text \<open>The \<open>results\<close> object as measureLatency creates it and fills in the two probes
  that run first.\<close>

definition initialResults :: "string \<Rightarrow> number js \<Rightarrow> number js \<Rightarrow> measurement" where
  "initialResults u ping dns =
     \<lparr>m_url = u, error = Undefined, networkPing = ping, httpLatency = Null,
      dnsTime = dns, status = Null, finalUrl = Val u, bestLatency = Undefined\<rparr>"

text \<open>\<open>Promise.all\<close> of two promises.\<close>

fun promiseAll2 :: "'a promise \<Rightarrow> 'b promise \<Rightarrow> ('a \<times> 'b) promise" where
  "promiseAll2 (Resolved a) (Resolved b) = Resolved (a, b)"
| "promiseAll2 (Uncaught e) _ = Uncaught e"
| "promiseAll2 _ (Uncaught e) = Uncaught e"
| "promiseAll2 (Rejected e) _ = Rejected e"
| "promiseAll2 _ (Rejected e) = Rejected e"

definition measureLatency :: "net_env \<Rightarrow> string \<Rightarrow> options \<Rightarrow> measurement promise" where
  "measureLatency env u opts =
     (let cfg = mergeOptions opts in
      case parseURL env u of
        None \<Rightarrow> Resolved (failure u ''Invalid URL'')
      | Some urlObj \<Rightarrow>
          (case promiseAll2 (getNetworkLatency env (hostname urlObj))
                  (if measureDns cfg then getDnsResolutionTime env (hostname urlObj)
                   else Resolved Null) of
             Rejected e \<Rightarrow> Resolved (failure u e)
           | Uncaught e \<Rightarrow> Uncaught e
           | Resolved (ping, dns) \<Rightarrow>
               (let results = initialResults u ping dns
                in if useHeadRequest cfg then
                     (case performHeadRequest env u (timeout cfg) (maxRedirects cfg) of
                        Resolved headResponse \<Rightarrow>
                          Resolved (chooseBest cfg
                            (results\<lparr>httpLatency := Val (hr_time headResponse),
                                     status := Val (hr_status headResponse),
                                     finalUrl := hr_finalUrl headResponse\<rparr>))
                      | Rejected headError \<Rightarrow>
                          Resolved (chooseBest cfg (axiosCheck env u cfg results))
                      | Uncaught e \<Rightarrow> Uncaught e)
                   else Resolved (chooseBest cfg (axiosCheck env u cfg results)))))"

subsection \<open>Redirect chains\<close>

text \<open>
  Vocabulary for stating what the HEAD probe does with a chain of redirects. \<open>hopEvent\<close> is
  what the request number \<open>c\<close> of a chain receives when makeRequest issues it for the URL
  \<open>u\<close> (\<open>None\<close> when \<open>u\<close> does not parse). \<open>redirectsTo\<close>: that request is answered with one
  of the five redirect codes and a non-empty \<open>Location\<close> that resolves, against \<open>u\<close>, to
  \<open>u'\<close>. \<open>answersWith\<close>: it is answered with status \<open>s\<close>. \<open>locationMissing\<close>: it is
  answered with a redirect code and no (or an empty) \<open>Location\<close>. \<open>redirectChain c us\<close>:
  starting with request number \<open>c\<close>, each URL of \<open>us\<close> redirects to the next one.
  \<open>startPort\<close> is the port performHeadRequest derives from the starting URL.
\<close>

definition hopEvent :: "net_env \<Rightarrow> int \<Rightarrow> number \<Rightarrow> nat \<Rightarrow> string \<Rightarrow> head_event option" where
  "hopEvent env port tmo c u =
     (case parseURL env u of
        None \<Rightarrow> None
      | Some p \<Rightarrow>
          Some (headRequest env c
                  \<lparr>secure = (protocol p = ''https:''), ho_hostname = hostname p,
                   ho_path = pathname p @ search p, ho_port = port, ho_timeout = tmo\<rparr>))"

definition redirectsTo :: "net_env \<Rightarrow> int \<Rightarrow> number \<Rightarrow> nat \<Rightarrow> string \<Rightarrow> string \<Rightarrow> bool" where
  "redirectsTo env port tmo c u u' =
     (case hopEvent env port tmo c u of
        Some (HeadResponse st loc dt) \<Rightarrow>
          isRedirect st \<and> truthyStr loc \<and> resolveURL env (the loc) u = Some u'
      | _ \<Rightarrow> False)"

definition answersWith :: "net_env \<Rightarrow> int \<Rightarrow> number \<Rightarrow> nat \<Rightarrow> string \<Rightarrow> int \<Rightarrow> bool" where
  "answersWith env port tmo c u s =
     (case hopEvent env port tmo c u of
        Some (HeadResponse st loc dt) \<Rightarrow> st = s
      | _ \<Rightarrow> False)"

definition locationMissing :: "net_env \<Rightarrow> int \<Rightarrow> number \<Rightarrow> nat \<Rightarrow> string \<Rightarrow> bool" where
  "locationMissing env port tmo c u =
     (case hopEvent env port tmo c u of
        Some (HeadResponse st loc dt) \<Rightarrow> isRedirect st \<and> \<not> truthyStr loc
      | _ \<Rightarrow> False)"

fun redirectChain :: "net_env \<Rightarrow> int \<Rightarrow> number \<Rightarrow> nat \<Rightarrow> string list \<Rightarrow> bool" where
  "redirectChain env port tmo c [] = False"
| "redirectChain env port tmo c [u] = True"
| "redirectChain env port tmo c (u # u' # us) =
     (redirectsTo env port tmo c u u' \<and> redirectChain env port tmo (Suc c) (u' # us))"

definition startPort :: "net_env \<Rightarrow> string \<Rightarrow> int" where
  "startPort env u =
     (case parseURL env u of
        None \<Rightarrow> 80
      | Some p \<Rightarrow> (if protocol p = ''https:'' then 443 else 80))"

section \<open>The validator session (connection module)\<close>

subsection \<open>Environment and data\<close>

record status_options =
  so_secure :: bool
  so_hostname :: string
  so_path :: string

text \<open>One HEAD request of getStatusCode: the response (status code, \<open>Location\<close> header,
  elapsed milliseconds), the \<open>error\<close> event (elapsed milliseconds) or the \<open>timeout\<close> event.\<close>

datatype status_event =
    StatusResponse int "string option" number
  | StatusError number
  | StatusTimeout

datatype verdict = Good | Bad

text \<open>The \<open>data\<close> object of a validation request and of the frame sent back.\<close>

record validation_request =
  vr_url :: string
  vr_callbackId :: string

record frame =
  f_callbackId :: string
  f_status :: verdict
  f_latency :: number
  f_validatorId :: "string js"
  f_signedMessage :: string
  f_location :: string
  f_ipAddress :: string

text \<open>The module-level variables of the connection module.\<close>

record session =
  s_validatorId :: "string js"
  s_pendingPayouts :: number
  s_location :: string
  s_ipAddress :: string
  s_lastPingTime :: "number js"

text \<open>
  The outside world of the session: the URL parser, the TCP stack, the HTTP servers
  (indexed by the number of the request within one getStatusCode chain), \<open>fetch\<close> (the
  status, or \<open>None\<close> when it throws), the lookup at ipinfo.io (city and region, or \<open>None\<close>
  when it fails), \<open>wsConnection.send\<close> (\<open>False\<close>: it throws), the signature primitive
  with the session's key pair and the clock.
\<close>

record val_env =
  v_parseURL :: "string \<Rightarrow> url option"
  v_resolveURL :: "string \<Rightarrow> string \<Rightarrow> string option"
  v_tcpConnect :: "string \<Rightarrow> int \<Rightarrow> tcp_event"
  v_headRequest :: "nat \<Rightarrow> status_options \<Rightarrow> status_event"
  v_fetch :: "string \<Rightarrow> int option"
  v_ipinfo :: "(string \<times> string) option"
  v_send :: "frame \<Rightarrow> bool"
  v_sign :: "string \<Rightarrow> string"
  v_now :: number

definition COST_PER_VALIDATION :: number where
  "COST_PER_VALIDATION = 100"

subsection \<open>measureAccurateLatency and its probes\<close>

definition getTcpLatency :: "val_env \<Rightarrow> string \<Rightarrow> int \<Rightarrow> number js promise" where
  "getTcpLatency env host port =
     (if \<not> validPort port then Rejected ''ERR_SOCKET_BAD_PORT''
      else (case v_tcpConnect env host port of
              TcpConnect latency \<Rightarrow> Resolved (Val latency)
            | TcpTimeout \<Rightarrow> Resolved Null
            | TcpError \<Rightarrow> Resolved Null))"

record status_result =
  sr_time :: number
  sr_status :: int

text \<open>
  getStatusCode follows a redirect by calling itself from the response callback, with no
  bound on the number of hops (the \<open>followRedirects\<close> and \<open>maxRedirects\<close> entries of its
  options object are not options of \<open>http.request\<close>). The function is therefore partial: \<open>None\<close>
  means that the promise never settles. \<open>hop\<close> counts the requests of the chain. A missing
  \<open>Location\<close> header reaches the URL constructor as \<open>undefined\<close>, which it reads as the
  string \<open>undefined\<close>; when the constructor throws there, inside the response callback,
  nobody catches the exception.
\<close>

partial_function (option) getStatusCode ::
  "val_env \<Rightarrow> nat \<Rightarrow> string \<Rightarrow> status_result promise option"
where
  "getStatusCode env hop u =
     (case v_parseURL env u of
        None \<Rightarrow> Some (Rejected ''Invalid URL'')
      | Some urlObj \<Rightarrow>
          (case v_headRequest env hop
                  \<lparr>so_secure = (protocol urlObj = ''https:''), so_hostname = hostname urlObj,
                   so_path = pathname urlObj @ search urlObj\<rparr> of
             StatusError dt \<Rightarrow> Some (Resolved \<lparr>sr_time = dt, sr_status = 0\<rparr>)
           | StatusTimeout \<Rightarrow> Some (Resolved \<lparr>sr_time = 3000, sr_status = 0\<rparr>)
           | StatusResponse statusCode location dt \<Rightarrow>
               (if isRedirect statusCode then
                  (case v_resolveURL env
                          (case location of None \<Rightarrow> ''undefined'' | Some l \<Rightarrow> l) u of
                     None \<Rightarrow> Some (Uncaught ''Invalid URL'')
                   | Some redirectUrl \<Rightarrow> getStatusCode env (Suc hop) redirectUrl)
                else Some (Resolved \<lparr>sr_time = dt, sr_status = statusCode\<rparr>))))"

record ping_result =
  pr_time :: number
  pr_status :: int

text \<open>\<open>tcpLatency || statusCheck.time\<close>\<close>

definition orTime :: "number js \<Rightarrow> number \<Rightarrow> number" where
  "orTime tcpLatency t = (case tcpLatency of Val n \<Rightarrow> (if n \<noteq> 0 then n else t) | _ \<Rightarrow> t)"

definition measureAccurateLatency :: "val_env \<Rightarrow> string \<Rightarrow> ping_result promise option" where
  "measureAccurateLatency env u =
     (case v_parseURL env u of
        None \<Rightarrow> Some (Resolved \<lparr>pr_time = 0, pr_status = 0\<rparr>)
      | Some urlObj \<Rightarrow>
          (case getTcpLatency env (hostname urlObj)
                  (if protocol urlObj = ''https:'' then 443 else 80) of
             Rejected e \<Rightarrow> Some (Resolved \<lparr>pr_time = 0, pr_status = 0\<rparr>)
           | Uncaught e \<Rightarrow> Some (Uncaught e)
           | Resolved tcpLatency \<Rightarrow>
               (case getStatusCode env 0 u of
                  None \<Rightarrow> None
                | Some (Rejected e) \<Rightarrow> Some (Resolved \<lparr>pr_time = 0, pr_status = 0\<rparr>)
                | Some (Uncaught e) \<Rightarrow> Some (Uncaught e)
                | Some (Resolved statusCheck) \<Rightarrow>
                    Some (Resolved \<lparr>pr_time = orTime tcpLatency (sr_time statusCheck),
                                     pr_status = sr_status statusCheck\<rparr>))))"

subsection \<open>The handler of a validate message\<close>

text \<open>
  The status the handler classifies: the probe's, or, when that is 0, the status of a
  plain \<open>fetch\<close> (still 0 when the fetch throws).
\<close>

definition responseStatusOf :: "val_env \<Rightarrow> string \<Rightarrow> int \<Rightarrow> int" where
  "responseStatusOf env u probeStatus =
     (if probeStatus = 0 then (case v_fetch env u of Some st \<Rightarrow> st | None \<Rightarrow> 0)
      else probeStatus)"

text \<open>The condition of the \<open>if\<close> that sends the Bad frame. \<open>responseStatus\<close> is a number,
  for which the third disjunct of the source, \<open>responseStatus == "unknown"\<close>, is false.\<close>

definition isBadStatus :: "int \<Rightarrow> bool" where
  "isBadStatus responseStatus =
     ((400 \<le> responseStatus \<and> responseStatus < 600) \<or> responseStatus = 0)"

text \<open>The location sent with a Bad frame: looked up again, the old one when that fails.\<close>

definition freshLocation :: "val_env \<Rightarrow> session \<Rightarrow> string" where
  "freshLocation env st =
     (case v_ipinfo env of
        None \<Rightarrow> s_location st
      | Some (city, region) \<Rightarrow> city @ '', '' @ region)"

definition badFrame :: "val_env \<Rightarrow> session \<Rightarrow> validation_request \<Rightarrow> frame" where
  "badFrame env st req =
     \<lparr>f_callbackId = vr_callbackId req, f_status = Bad, f_latency = 0,
      f_validatorId = s_validatorId st,
      f_signedMessage = v_sign env (''Replying to '' @ vr_callbackId req),
      f_location = freshLocation env st, f_ipAddress = s_ipAddress st\<rparr>"

definition goodFrame :: "val_env \<Rightarrow> session \<Rightarrow> validation_request \<Rightarrow> number \<Rightarrow> frame" where
  "goodFrame env st req latency =
     \<lparr>f_callbackId = vr_callbackId req, f_status = Good, f_latency = latency,
      f_validatorId = s_validatorId st,
      f_signedMessage = v_sign env (''Replying to '' @ vr_callbackId req),
      f_location = s_location st, f_ipAddress = s_ipAddress st\<rparr>"

text \<open>\<open>lastPingTime = Date.now()\<close> and \<open>pendingPayouts += COST_PER_VALIDATION\<close>: the module
  state when the try block reaches its \<open>send\<close>.\<close>

definition creditValidation :: "val_env \<Rightarrow> session \<Rightarrow> session" where
  "creditValidation env st =
     st\<lparr>s_lastPingTime := Val (v_now env),
        s_pendingPayouts := s_pendingPayouts st + COST_PER_VALIDATION\<rparr>"

text \<open>The frame the try block hands to \<open>send\<close> after a probe that returned
  \<open>pingResult\<close>: the Bad frame under the condition of the \<open>if\<close>, the Good frame with the
  measured latency otherwise.\<close>

definition replyFrame ::
  "val_env \<Rightarrow> session \<Rightarrow> validation_request \<Rightarrow> ping_result \<Rightarrow> frame"
where
  "replyFrame env st req pingResult =
     (if isBadStatus (responseStatusOf env (vr_url req) (pr_status pingResult))
      then badFrame env (creditValidation env st) req
      else goodFrame env (creditValidation env st) req (pr_time pingResult))"

text \<open>How the handler ends: it completes, with the new module state and the frames it
  sent, or an exception escapes a callback and the process is left with it.\<close>

datatype handler_result = Completed session "frame list" | Crashed string

text \<open>The inner \<open>catch (error)\<close> block: it credits the validation again and sends a Bad
  frame; when that send throws too, the outer \<open>catch\<close> only logs.\<close>

definition catchBlock :: "val_env \<Rightarrow> session \<Rightarrow> validation_request \<Rightarrow> handler_result" where
  "catchBlock env st req =
     (let st' = st\<lparr>s_pendingPayouts := s_pendingPayouts st + COST_PER_VALIDATION\<rparr>
      in if v_send env (badFrame env st' req) then Completed st' [badFrame env st' req]
         else Completed st' [])"

text \<open>The \<open>else if (data.type === "validate")\<close> branch of the message handler. \<open>None\<close>: the
  handler never gets past its \<open>await\<close>.\<close>

definition onValidate ::
  "val_env \<Rightarrow> session \<Rightarrow> validation_request \<Rightarrow> handler_result option"
where
  "onValidate env st req =
     (case measureAccurateLatency env (vr_url req) of
        None \<Rightarrow> None
      | Some (Uncaught e) \<Rightarrow> Some (Crashed e)
      | Some (Rejected e) \<Rightarrow> Some (catchBlock env st req)
      | Some (Resolved pingResult) \<Rightarrow>
          (if v_send env (replyFrame env st req pingResult)
           then Some (Completed (creditValidation env st) [replyFrame env st req pingResult])
           else Some (catchBlock env (creditValidation env st) req)))"

section \<open>The hub\<close>

record validator_record =
  publicKey :: "string js"
  location :: string
  connectionTime :: number
  lastActive :: number
  ip :: string
  clientIp :: string

text \<open>
  \<open>validators\<close> is a JavaScript \<open>Map\<close>, which iterates in insertion order: an association
  list. \<open>set\<close> overwrites the value of a key in place or appends a new entry
  (\<open>AList.update\<close>), \<open>get\<close> is \<open>map_of\<close>, \<open>delete\<close> is \<open>AList.delete\<close>.
\<close>

type_synonym registry = "(string \<times> validator_record) list"

definition digitChar :: "nat \<Rightarrow> char" where
  "digitChar d = char_of (48 + d)"

fun showNat :: "nat \<Rightarrow> string" where
  "showNat n = (if n < 10 then [digitChar n] else showNat (n div 10) @ [digitChar (n mod 10)])"

declare showNat.simps [simp del]

text \<open>\<open>`validator-${Math.floor(Math.random() * 10000)}`\<close>; \<open>r\<close> is the number drawn.\<close>

definition mkValidatorId :: "nat \<Rightarrow> string" where
  "mkValidatorId r = ''validator-'' @ showNat r"

record signup_data =
  sd_ip :: "string option"
  sd_publicKey :: "string option"
  sd_location :: "string option"

text \<open>\<open>a || b\<close> on an optional string.\<close>

definition orElse :: "string option \<Rightarrow> string \<Rightarrow> string" where
  "orElse a b = (if truthyStr a then the a else b)"

text \<open>
  The signup branch: the new registry and the acknowledgements sent (the validator ids).
  \<open>publicKey.substring\<close> throws when the frame carries no public key; that happens after
  the record is stored and before the acknowledgement is sent.
\<close>

definition hub_signup ::
  "registry \<Rightarrow> string \<Rightarrow> signup_data \<Rightarrow> nat \<Rightarrow> number \<Rightarrow> registry \<times> string list"
where
  "hub_signup validators cip d r now =
     (let validatorId = mkValidatorId r;
          validators' = AList.update validatorId
            \<lparr>publicKey = (case sd_publicKey d of None \<Rightarrow> Undefined | Some k \<Rightarrow> Val k),
             location = orElse (sd_location d) ''Unknown'',
             connectionTime = now, lastActive = now,
             ip = orElse (sd_ip d) cip, clientIp = cip\<rparr> validators
      in (validators', if sd_publicKey d = None then [] else [validatorId]))"

record report_data =
  rd_validatorId :: string
  rd_ipAddress :: "string option"

text \<open>The validate branch: what a validation report does to the registry.\<close>

definition hub_validate :: "registry \<Rightarrow> report_data \<Rightarrow> number \<Rightarrow> registry" where
  "hub_validate validators d now =
     (case map_of validators (rd_validatorId d) of
        None \<Rightarrow> validators
      | Some validatorInfo \<Rightarrow>
          AList.update (rd_validatorId d)
            (validatorInfo\<lparr>lastActive := now,
                            ip := orElse (rd_ipAddress d) (ip validatorInfo)\<rparr>) validators)"

text \<open>The close handler: the loop deletes the first entry whose \<open>ip\<close> equals the address
  of the closing connection and stops.\<close>

fun firstWithIp :: "string \<Rightarrow> registry \<Rightarrow> string option" where
  "firstWithIp cip [] = None"
| "firstWithIp cip ((k, info) # rest) = (if ip info = cip then Some k else firstWithIp cip rest)"

definition hub_close :: "registry \<Rightarrow> string \<Rightarrow> registry" where
  "hub_close validators cip =
     (case firstWithIp cip validators of
        None \<Rightarrow> validators
      | Some k \<Rightarrow> AList.delete k validators)"

section \<open>Concrete scenarios\<close>

subsection \<open>Network scenarios\<close>

text \<open>A parser and a resolver that know two URLs of one host; every other string, among
  them the \<open>Location\<close> value \<open>http://[\<close>, makes the URL constructor throw.\<close>

definition ex_url_a :: url where
  "ex_url_a = \<lparr>protocol = ''http:'', hostname = ''a.test'', pathname = ''/'', search = []\<rparr>"

definition ex_url_b :: url where
  "ex_url_b = \<lparr>protocol = ''http:'', hostname = ''a.test'', pathname = ''/b'', search = []\<rparr>"

definition ex_parse :: "string \<Rightarrow> url option" where
  "ex_parse s = (if s = ''http://a.test/'' then Some ex_url_a
                 else if s = ''http://a.test/b'' then Some ex_url_b else None)"

definition ex_resolve :: "string \<Rightarrow> string \<Rightarrow> string option" where
  "ex_resolve loc base = (if loc = ''/b'' then Some ''http://a.test/b'' else None)"

text \<open>A reachable host on a Unix machine: ping answers in 10.125 ms, the name resolves in
  3 ms, HEAD is answered with 200 after 12 ms and GET with 200 after 40 ms.\<close>

definition ex_env :: net_env where
  "ex_env = \<lparr>isWindows = False,
     execSync = (\<lambda>cmd. Some ''64 bytes from 192.0.2.1: icmp_seq=1 ttl=57 time=10.125 ms''),
     dnsLookup = (\<lambda>h. (False, 3)),
     tcpConnect = (\<lambda>h p. TcpConnect 8),
     parseURL = ex_parse,
     resolveURL = ex_resolve,
     headRequest = (\<lambda>hop opts. HeadResponse 200 None 12),
     axiosGet = (\<lambda>u cfg. GetResponse 200 (Some (Val u)) 40)\<rparr>"

text \<open>The same host seen from a Windows machine whose ping reports 0 ms.\<close>

definition env_zero_ping :: net_env where
  "env_zero_ping = ex_env\<lparr>isWindows := True,
     execSync := (\<lambda>cmd. Some ''Minimum = 0ms, Maximum = 0ms, Average = 0ms'')\<rparr>"

text \<open>A server that redirects to a \<open>Location\<close> the URL constructor rejects.\<close>

definition env_bad_location :: net_env where
  "env_bad_location =
     ex_env\<lparr>headRequest := (\<lambda>hop opts. HeadResponse 301 (Some ''http://['') 5)\<rparr>"

text \<open>A server whose HEAD requests fail while GET works.\<close>

definition env_head_down :: net_env where
  "env_head_down = ex_env\<lparr>headRequest := (\<lambda>hop opts. HeadError ''socket hang up'')\<rparr>"

text \<open>A server that answers HEAD with 304 and no \<open>Location\<close>.\<close>

definition env_not_modified :: net_env where
  "env_not_modified = ex_env\<lparr>headRequest := (\<lambda>hop opts. HeadResponse 304 None 7)\<rparr>"

text \<open>One redirect to \<open>/b\<close>, then 200; a server that always redirects to \<open>/b\<close>; a server
  that redirects without a \<open>Location\<close>.\<close>

definition env_one_redirect :: net_env where
  "env_one_redirect = ex_env\<lparr>headRequest :=
     (\<lambda>hop opts. if hop = 0 then HeadResponse 301 (Some ''/b'') 5
                  else HeadResponse 200 None 12)\<rparr>"

definition env_redirects :: net_env where
  "env_redirects = ex_env\<lparr>headRequest := (\<lambda>hop opts. HeadResponse 302 (Some ''/b'') 5)\<rparr>"

definition env_no_location :: net_env where
  "env_no_location = ex_env\<lparr>headRequest := (\<lambda>hop opts. HeadResponse 302 None 5)\<rparr>"

text \<open>A site that redirects from http to https. The server on port 443 speaks TLS and
  answers 200; a TLS request that arrives on port 80 fails with a protocol error.\<close>

definition ex_url_s :: url where
  "ex_url_s = \<lparr>protocol = ''https:'', hostname = ''a.test'', pathname = ''/'', search = []\<rparr>"

definition env_https_redirect :: net_env where
  "env_https_redirect = ex_env\<lparr>
     parseURL := (\<lambda>s. if s = ''http://a.test/'' then Some ex_url_a
                       else if s = ''https://a.test/'' then Some ex_url_s else None),
     resolveURL := (\<lambda>loc base. if loc = ''https://a.test/'' then Some ''https://a.test/''
                                 else None),
     headRequest := (\<lambda>hop opts.
        if \<not> secure opts then HeadResponse 301 (Some ''https://a.test/'') 5
        else if ho_port opts = 443 then HeadResponse 200 None 9
        else HeadError ''EPROTO'')\<rparr>"

definition ex_one_redirect_opts :: options where
  "ex_one_redirect_opts = noOptions\<lparr>o_maxRedirects := Some 1\<rparr>"

subsection \<open>Validator scenarios\<close>

text \<open>A session that has been acknowledged as \<open>validator-1\<close>, on an open connection that
  accepts every frame, probing a host that answers the TCP connect in 20 ms and HEAD with
  200 after 35 ms.\<close>

definition ex_session :: session where
  "ex_session = \<lparr>s_validatorId = Val ''validator-1'', s_pendingPayouts = 0,
                 s_location = ''Pune, MH, IN'', s_ipAddress = ''203.0.113.7'',
                 s_lastPingTime = Null\<rparr>"

definition ex_request :: validation_request where
  "ex_request = \<lparr>vr_url = ''http://a.test/'', vr_callbackId = ''cb-1''\<rparr>"

definition ex_venv :: val_env where
  "ex_venv = \<lparr>v_parseURL = ex_parse,
     v_resolveURL = (\<lambda>loc base. Some ''http://a.test/''),
     v_tcpConnect = (\<lambda>h p. TcpConnect 20),
     v_headRequest = (\<lambda>hop opts. StatusResponse 200 None 35),
     v_fetch = (\<lambda>u. None),
     v_ipinfo = Some (''Pune'', ''MH''),
     v_send = (\<lambda>f. True),
     v_sign = (\<lambda>m. ''sig:'' @ m),
     v_now = 1000\<rparr>"

text \<open>A server that answers with the status code 999.\<close>

definition venv_999 :: val_env where
  "venv_999 = ex_venv\<lparr>v_headRequest := (\<lambda>hop opts. StatusResponse 999 None 35)\<rparr>"

text \<open>A server that answers every request with 301 and \<open>Location: /\<close>, which resolves to
  the URL just requested.\<close>

definition venv_redirect_loop :: val_env where
  "venv_redirect_loop = ex_venv\<lparr>v_headRequest := (\<lambda>hop opts. StatusResponse 301 (Some ''/'') 5)\<rparr>"

text \<open>A connection on which the send of a Good frame throws and the send of a Bad frame
  goes through.\<close>

definition venv_send_throws :: val_env where
  "venv_send_throws = ex_venv\<lparr>v_send := (\<lambda>f. f_status f = Bad)\<rparr>"

subsection \<open>Hub scenarios\<close>

text \<open>Two validators behind one address: both report the same public address and the hub
  sees the same remote address for both connections.\<close>

definition ex_signup_a :: signup_data where
  "ex_signup_a = \<lparr>sd_ip = Some ''203.0.113.7'', sd_publicKey = Some ''keyA'',
                  sd_location = Some ''Pune, MH, IN''\<rparr>"

definition ex_signup_b :: signup_data where
  "ex_signup_b = \<lparr>sd_ip = Some ''203.0.113.7'', sd_publicKey = Some ''keyB'',
                  sd_location = Some ''Pune, MH, IN''\<rparr>"

definition ex_rec_a :: validator_record where
  "ex_rec_a = \<lparr>publicKey = Val ''keyA'', location = ''Pune, MH, IN'', connectionTime = 1000,
               lastActive = 1000, ip = ''203.0.113.7'', clientIp = ''203.0.113.7''\<rparr>"

definition ex_rec_b :: validator_record where
  "ex_rec_b = \<lparr>publicKey = Val ''keyB'', location = ''Pune, MH, IN'', connectionTime = 2000,
               lastActive = 2000, ip = ''203.0.113.7'', clientIp = ''203.0.113.7''\<rparr>"

definition ex_registry :: registry where
  "ex_registry = [(''validator-1'', ex_rec_a), (''validator-2'', ex_rec_b)]"

definition ex_report :: report_data where
  "ex_report = \<lparr>rd_validatorId = ''validator-1'', rd_ipAddress = Some ''198.51.100.9''\<rparr>"

section \<open>Properties of the hub\<close>

lemma map_of_Some_key: "map_of al k = Some v \<Longrightarrow> k \<in> set (map fst al)"
  by (induction al) (auto split: if_splits)

lemma hub_validate_keys: "map fst (hub_validate validators d now) = map fst validators"
  by (auto simp: hub_validate_def update_keys map_of_eq_None_iff [symmetric]
           split: option.splits)

lemma hub_validate_other:
  "k \<noteq> rd_validatorId d \<Longrightarrow> map_of (hub_validate validators d now) k = map_of validators k"
  by (simp add: hub_validate_def update_conv' split: option.splits)

lemma hub_validate_absent:
  "map_of validators (rd_validatorId d) = None \<Longrightarrow> hub_validate validators d now = validators"
  by (simp add: hub_validate_def)

lemma hub_validate_present:
  "map_of validators (rd_validatorId d) = Some r \<Longrightarrow>
   map_of (hub_validate validators d now) (rd_validatorId d)
     = Some (r\<lparr>lastActive := now, ip := orElse (rd_ipAddress d) (ip r)\<rparr>)"
  by (simp add: hub_validate_def update_conv')

text \<open>
  C9. A validation report for a validator id that has a record rewrites that record with
  a new \<open>lastActive\<close> and with \<open>ip\<close> set to the reported address (the old one when the
  report carries none); \<open>publicKey\<close>, \<open>location\<close>, \<open>connectionTime\<close> and \<open>clientIp\<close> keep
  their values. A report for an id without a record leaves the registry as it is. In both
  cases every other key maps to what it mapped to before, and the keys and their order are
  unchanged.
\<close>

theorem hub_validate_touches_only_lastActive_and_ip:
  "(case map_of validators (rd_validatorId d) of
      None \<Rightarrow> hub_validate validators d now = validators
    | Some r \<Rightarrow>
        (\<exists>r'. map_of (hub_validate validators d now) (rd_validatorId d) = Some r'
           \<and> lastActive r' = now
           \<and> ip r' = (if truthyStr (rd_ipAddress d) then the (rd_ipAddress d) else ip r)
           \<and> publicKey r' = publicKey r \<and> location r' = location r
           \<and> connectionTime r' = connectionTime r \<and> clientIp r' = clientIp r))
   \<and> (\<forall>k. k \<noteq> rd_validatorId d \<longrightarrow>
          map_of (hub_validate validators d now) k = map_of validators k)
   \<and> map fst (hub_validate validators d now) = map fst validators"
proof (intro conjI allI impI)
  show "case map_of validators (rd_validatorId d) of
      None \<Rightarrow> hub_validate validators d now = validators
    | Some r \<Rightarrow>
        (\<exists>r'. map_of (hub_validate validators d now) (rd_validatorId d) = Some r'
           \<and> lastActive r' = now
           \<and> ip r' = (if truthyStr (rd_ipAddress d) then the (rd_ipAddress d) else ip r)
           \<and> publicKey r' = publicKey r \<and> location r' = location r
           \<and> connectionTime r' = connectionTime r \<and> clientIp r' = clientIp r)"
  proof (cases "map_of validators (rd_validatorId d)")
    case None
    then show ?thesis by (simp add: hub_validate_absent)
  next
    case (Some r)
    then show ?thesis by (simp add: hub_validate_present orElse_def)
  qed
next
  fix k assume "k \<noteq> rd_validatorId d"
  then show "map_of (hub_validate validators d now) k = map_of validators k"
    by (rule hub_validate_other)
next
  show "map fst (hub_validate validators d now) = map fst validators"
    by (rule hub_validate_keys)
qed

theorem hub_validate_touches_only_lastActive_and_ip_witness:
  "map_of ex_registry (rd_validatorId ex_report) = Some ex_rec_a
   \<and> map_of (hub_validate ex_registry ex_report 5000) ''validator-1''
       = Some (ex_rec_a\<lparr>lastActive := 5000, ip := ''198.51.100.9''\<rparr>)
   \<and> ''validator-2'' \<noteq> rd_validatorId ex_report
   \<and> map_of (hub_validate ex_registry ex_report 5000) ''validator-2'' = Some ex_rec_b
   \<and> map fst (hub_validate ex_registry ex_report 5000) = [''validator-1'', ''validator-2'']"
  using hub_validate_touches_only_lastActive_and_ip [of ex_registry ex_report 5000]
  by (simp add: ex_registry_def ex_report_def ex_rec_a_def ex_rec_b_def hub_validate_def
                orElse_def)

text \<open>
  C7. The identity comes from one random draw and nothing compares it with the ids in the
  registry. Two registrations from two connections that draw the same number (42 here)
  are both acknowledged with \<open>validator-42\<close>, and the second registration overwrites the
  record of the first validator, which is still connected.
\<close>

theorem hub_signup_same_draw_same_id:
  "hub_signup [] ''198.51.100.1'' ex_signup_a 42 1000
     = ([(''validator-42'', ex_rec_a\<lparr>clientIp := ''198.51.100.1''\<rparr>)], [''validator-42''])
   \<and> hub_signup [(''validator-42'', ex_rec_a\<lparr>clientIp := ''198.51.100.1''\<rparr>)]
         ''198.51.100.2'' ex_signup_b 42 2000
     = ([(''validator-42'', ex_rec_b\<lparr>clientIp := ''198.51.100.2''\<rparr>)], [''validator-42''])"
  by code_simp

text \<open>
  C8. The registry holds the records of two connected validators that share the address
  203.0.113.7, registered in the order \<open>validator-1\<close>, \<open>validator-2\<close>
  (\<open>ex_registry\<close> is what the two signups produce). When the connection of the second one
  closes, the loop deletes the first record whose \<open>ip\<close> is that address: the record of
  \<open>validator-1\<close>, whose connection is still open, is removed and the record of the
  validator that left stays.
\<close>

theorem hub_close_removes_first_record_with_ip:
  "hub_signup (fst (hub_signup [] ''203.0.113.7'' ex_signup_a 1 1000))
      ''203.0.113.7'' ex_signup_b 2 2000 = (ex_registry, [''validator-2''])
   \<and> hub_close ex_registry ''203.0.113.7'' = [(''validator-2'', ex_rec_b)]"
  by code_simp

section \<open>Properties of the network module\<close>

subsection \<open>The probes settle\<close>

lemma getNetworkLatency_resolves: "\<exists>v. getNetworkLatency env h = Resolved v"
  by (simp add: getNetworkLatency_def split: option.splits)

lemma getDnsResolutionTime_resolves: "\<exists>v. getDnsResolutionTime env h = Resolved v"
  by (simp add: getDnsResolutionTime_def split: prod.splits)

lemma getTcpConnectionTime_valid_port_resolves:
  "validPort port \<Longrightarrow> \<exists>v. getTcpConnectionTime env h port = Resolved v"
  by (simp add: getTcpConnectionTime_def split: tcp_event.splits)

lemma probes_resolve:
  "\<exists>ping dns. promiseAll2 (getNetworkLatency env h)
       (if b then getDnsResolutionTime env h else Resolved Null) = Resolved (ping, dns)"
proof -
  obtain v where v: "getNetworkLatency env h = Resolved v"
    using getNetworkLatency_resolves by blast
  obtain w where w: "getDnsResolutionTime env h = Resolved w"
    using getDnsResolutionTime_resolves by blast
  show ?thesis by (simp add: v w)
qed

text \<open>Outside the port range the promise of getTcpConnectionTime is rejected, whatever
  the host and the network do.\<close>

lemma getTcpConnectionTime_bad_port_rejects:
  "getTcpConnectionTime env h 70000 = Rejected ''ERR_SOCKET_BAD_PORT''"
  by (simp add: getTcpConnectionTime_def validPort_def)



subsection \<open>One step of makeRequest\<close>

lemma makeRequest_unfold:
  "hopEvent env port tmo c u = Some ev \<Longrightarrow>
   makeRequest env port tmo maxRedir u c el =
     (case ev of
        HeadError e \<Rightarrow> Rejected e
      | HeadTimeout \<Rightarrow> Rejected ''Request timed out''
      | HeadResponse st loc dt \<Rightarrow>
          (if isRedirect st then
             (if maxRedir \<le> int c then Rejected ''Too many redirects''
              else if \<not> truthyStr loc then Rejected ''Redirect location missing''
              else (case resolveURL env (the loc) u of
                      None \<Rightarrow> Uncaught ''Invalid URL''
                    | Some r \<Rightarrow> makeRequest env port tmo maxRedir r (c + 1) (el + dt)))
           else Resolved \<lparr>hr_time = el + dt, hr_status = st, hr_finalUrl = Val u,
                           hr_error = Undefined\<rparr>))"
  by (cases "parseURL env u")
     (simp_all add: hopEvent_def makeRequest.simps [of env port tmo maxRedir u c el])

lemma redirectsToD:
  "redirectsTo env port tmo c u u' \<Longrightarrow>
   \<exists>st loc dt. hopEvent env port tmo c u = Some (HeadResponse st loc dt) \<and> isRedirect st
      \<and> truthyStr loc \<and> resolveURL env (the loc) u = Some u'"
  by (auto simp: redirectsTo_def split: option.splits head_event.splits)

lemma answersWithD:
  "answersWith env port tmo c u s \<Longrightarrow>
   \<exists>loc dt. hopEvent env port tmo c u = Some (HeadResponse s loc dt)"
  by (auto simp: answersWith_def split: option.splits head_event.splits)

lemma locationMissingD:
  "locationMissing env port tmo c u \<Longrightarrow>
   \<exists>st loc dt. hopEvent env port tmo c u = Some (HeadResponse st loc dt) \<and> isRedirect st
      \<and> \<not> truthyStr loc"
  by (auto simp: locationMissing_def split: option.splits head_event.splits)

lemma hopEvent_parses: "hopEvent env port tmo c u = Some ev \<Longrightarrow> parseURL env u \<noteq> None"
  by (auto simp: hopEvent_def split: option.splits)

lemma makeRequest_follow:
  assumes "redirectsTo env port tmo c u u'" and "int c < maxRedir"
  shows "\<exists>dt. makeRequest env port tmo maxRedir u c el
            = makeRequest env port tmo maxRedir u' (Suc c) (el + dt)"
proof -
  from redirectsToD [OF assms(1)] obtain st loc dt where
    h: "hopEvent env port tmo c u = Some (HeadResponse st loc dt)" "isRedirect st"
       "truthyStr loc" "resolveURL env (the loc) u = Some u'" by blast
  from h assms(2) have "makeRequest env port tmo maxRedir u c el
      = makeRequest env port tmo maxRedir u' (Suc c) (el + dt)"
    by (simp add: makeRequest_unfold)
  then show ?thesis ..
qed

lemma makeRequest_final:
  assumes "answersWith env port tmo c u s" and "\<not> isRedirect s"
  shows "\<exists>t. makeRequest env port tmo maxRedir u c el
           = Resolved \<lparr>hr_time = t, hr_status = s, hr_finalUrl = Val u, hr_error = Undefined\<rparr>"
proof -
  from answersWithD [OF assms(1)] obtain loc dt where
    "hopEvent env port tmo c u = Some (HeadResponse s loc dt)" by blast
  with assms(2) show ?thesis by (simp add: makeRequest_unfold)
qed

lemma makeRequest_too_many:
  assumes "answersWith env port tmo c u s" and "isRedirect s" and "maxRedir \<le> int c"
  shows "makeRequest env port tmo maxRedir u c el = Rejected ''Too many redirects''"
proof -
  from answersWithD [OF assms(1)] obtain loc dt where
    "hopEvent env port tmo c u = Some (HeadResponse s loc dt)" by blast
  with assms(2,3) show ?thesis by (simp add: makeRequest_unfold)
qed

lemma makeRequest_location_missing:
  assumes "locationMissing env port tmo c u" and "int c < maxRedir"
  shows "makeRequest env port tmo maxRedir u c el = Rejected ''Redirect location missing''"
proof -
  from locationMissingD [OF assms(1)] obtain st loc dt where
    "hopEvent env port tmo c u = Some (HeadResponse st loc dt)" "isRedirect st"
    "\<not> truthyStr loc" by blast
  with assms(2) show ?thesis by (simp add: makeRequest_unfold)
qed

subsection \<open>Following a chain\<close>

lemma makeRequest_chain:
  "redirectChain env port tmo c us \<Longrightarrow> int c + int (length us) \<le> maxRedir + 1 \<Longrightarrow>
   \<exists>el'. makeRequest env port tmo maxRedir (hd us) c el
          = makeRequest env port tmo maxRedir (last us) (c + (length us - 1)) el'"
proof (induction env port tmo c us arbitrary: el rule: redirectChain.induct)
  case (1 env port tmo c)
  then show ?case by simp
next
  case (2 env port tmo c u)
  then show ?case by auto
next
  case (3 env port tmo c u u' us)
  from "3.prems" have r: "redirectsTo env port tmo c u u'"
    and ch: "redirectChain env port tmo (Suc c) (u' # us)" by auto
  from "3.prems" have lt: "int c < maxRedir" by simp
  from makeRequest_follow [OF r lt] obtain dt where
    s: "makeRequest env port tmo maxRedir u c el
          = makeRequest env port tmo maxRedir u' (Suc c) (el + dt)" by blast
  from "3.prems" have b: "int (Suc c) + int (length (u' # us)) \<le> maxRedir + 1" by simp
  from "3.IH" [OF ch b] obtain el' where
    "makeRequest env port tmo maxRedir (hd (u' # us)) (Suc c) (el + dt)
       = makeRequest env port tmo maxRedir (last (u' # us)) (Suc c + (length (u' # us) - 1)) el'"
    by blast
  with s show ?case by auto
qed

lemma chain_parses:
  assumes "redirectChain env port tmo c us"
      and "hopEvent env port tmo c' (last us) = Some ev"
  shows "parseURL env (hd us) \<noteq> None"
proof (cases us)
  case Nil
  with assms(1) show ?thesis by simp
next
  case (Cons u rest)
  show ?thesis
  proof (cases rest)
    case Nil
    with Cons assms(2) show ?thesis by (auto dest: hopEvent_parses)
  next
    case (Cons u' rest')
    with \<open>us = u # rest\<close> assms(1) have "redirectsTo env port tmo c u u'" by simp
    from redirectsToD [OF this] \<open>us = u # rest\<close> show ?thesis
      by (auto dest: hopEvent_parses)
  qed
qed

lemma performHeadRequest_start:
  "parseURL env u \<noteq> None \<Longrightarrow>
   performHeadRequest env u tmo maxRedir = makeRequest env (startPort env u) tmo maxRedir u 0 0"
  by (auto simp: performHeadRequest_def startPort_def)

lemma performHeadRequest_chain_resolves:
  assumes "redirectChain env (startPort env (hd us)) tmo 0 us"
      and "int (length us) \<le> maxRedir + 1"
      and "answersWith env (startPort env (hd us)) tmo (length us - 1) (last us) s"
      and "\<not> isRedirect s"
  shows "\<exists>t. performHeadRequest env (hd us) tmo maxRedir
           = Resolved \<lparr>hr_time = t, hr_status = s, hr_finalUrl = Val (last us),
                       hr_error = Undefined\<rparr>"
proof -
  from answersWithD [OF assms(3)] chain_parses [OF assms(1)]
  have p: "parseURL env (hd us) \<noteq> None" by blast
  from makeRequest_chain [OF assms(1), of maxRedir 0] assms(2) obtain el' where
    "makeRequest env (startPort env (hd us)) tmo maxRedir (hd us) 0 0
       = makeRequest env (startPort env (hd us)) tmo maxRedir (last us) (length us - 1) el'"
    by auto
  with makeRequest_final [OF assms(3,4), of maxRedir el'] performHeadRequest_start [OF p]
  show ?thesis by simp
qed

lemma performHeadRequest_chain_too_many:
  assumes "redirectChain env (startPort env (hd us)) tmo 0 us"
      and "int (length us) = maxRedir + 1"
      and "answersWith env (startPort env (hd us)) tmo (length us - 1) (last us) s"
      and "isRedirect s"
  shows "performHeadRequest env (hd us) tmo maxRedir = Rejected ''Too many redirects''"
proof -
  from answersWithD [OF assms(3)] chain_parses [OF assms(1)]
  have p: "parseURL env (hd us) \<noteq> None" by blast
  from makeRequest_chain [OF assms(1), of maxRedir 0] assms(2) obtain el' where
    "makeRequest env (startPort env (hd us)) tmo maxRedir (hd us) 0 0
       = makeRequest env (startPort env (hd us)) tmo maxRedir (last us) (length us - 1) el'"
    by auto
  moreover from assms(2) have "maxRedir \<le> int (length us - 1)" by simp
  ultimately show ?thesis
    using makeRequest_too_many [OF assms(3,4), of maxRedir el'] performHeadRequest_start [OF p]
    by simp
qed

lemma performHeadRequest_chain_location_missing:
  assumes "redirectChain env (startPort env (hd us)) tmo 0 us"
      and "int (length us) \<le> maxRedir"
      and "locationMissing env (startPort env (hd us)) tmo (length us - 1) (last us)"
  shows "performHeadRequest env (hd us) tmo maxRedir = Rejected ''Redirect location missing''"
proof -
  from locationMissingD [OF assms(3)] chain_parses [OF assms(1)]
  have p: "parseURL env (hd us) \<noteq> None" by blast
  from makeRequest_chain [OF assms(1), of maxRedir 0] assms(2) obtain el' where
    "makeRequest env (startPort env (hd us)) tmo maxRedir (hd us) 0 0
       = makeRequest env (startPort env (hd us)) tmo maxRedir (last us) (length us - 1) el'"
    by auto
  moreover from assms(1,2) have "int (length us - 1) < maxRedir" by (cases us) auto
  ultimately show ?thesis
    using makeRequest_location_missing [OF assms(3), of maxRedir el']
      performHeadRequest_start [OF p]
    by simp
qed

subsection \<open>measureLatency on top of the HEAD probe\<close>

lemma performHeadRequest_not_resolved_parses:
  "performHeadRequest env u tmo maxRedir = Rejected e \<Longrightarrow> parseURL env u \<noteq> None"
  by (auto simp: performHeadRequest_def split: option.splits)

lemma measureLatency_fallback:
  assumes "useHeadRequest (mergeOptions opts)"
      and "performHeadRequest env u (timeout (mergeOptions opts))
             (maxRedirects (mergeOptions opts)) = Rejected e"
  shows "\<exists>ping dns. measureLatency env u opts =
           Resolved (chooseBest (mergeOptions opts)
             (axiosCheck env u (mergeOptions opts) (initialResults u ping dns)))"
proof -
  from performHeadRequest_not_resolved_parses [OF assms(2)] obtain urlObj where
    p: "parseURL env u = Some urlObj" by blast
  from probes_resolve obtain ping dns where
    pa: "promiseAll2 (getNetworkLatency env (hostname urlObj))
           (if measureDns (mergeOptions opts) then getDnsResolutionTime env (hostname urlObj)
            else Resolved Null) = Resolved (ping, dns)" by blast
  from assms have "measureLatency env u opts =
      Resolved (chooseBest (mergeOptions opts)
        (axiosCheck env u (mergeOptions opts) (initialResults u ping dns)))"
    by (simp add: measureLatency_def Let_def p pa)
  then show ?thesis by blast
qed

lemma measureLatency_head:
  assumes "useHeadRequest (mergeOptions opts)"
      and "performHeadRequest env u (timeout (mergeOptions opts))
             (maxRedirects (mergeOptions opts)) = Resolved h"
      and "parseURL env u \<noteq> None"
  shows "\<exists>m. measureLatency env u opts = Resolved m \<and> httpLatency m = Val (hr_time h)
           \<and> status m = Val (hr_status h) \<and> finalUrl m = hr_finalUrl h"
proof -
  from assms(3) obtain urlObj where p: "parseURL env u = Some urlObj" by blast
  from probes_resolve obtain ping dns where
    pa: "promiseAll2 (getNetworkLatency env (hostname urlObj))
           (if measureDns (mergeOptions opts) then getDnsResolutionTime env (hostname urlObj)
            else Resolved Null) = Resolved (ping, dns)" by blast
  from assms show ?thesis
    by (simp add: measureLatency_def Let_def p pa chooseBest_def)
qed

lemma axiosCheck_sets_status: "\<exists>n. status (axiosCheck env u cfg r) = Val n"
  by (simp add: axiosCheck_def split: get_event.splits option.splits)

lemma chooseBest_status [simp]: "status (chooseBest cfg r) = status r"
  by (simp add: chooseBest_def)

lemma chooseBest_httpLatency [simp]: "httpLatency (chooseBest cfg r) = httpLatency r"
  by (simp add: chooseBest_def)

text \<open>
  What holds of measureLatency for every URL, configuration and environment: its promise is
  never rejected, and an object it resolves with has a numeric \<open>status\<close>. The third way to
  end, \<open>Uncaught\<close>, is not excluded.
\<close>

lemma measureLatency_never_rejects: "measureLatency env u opts \<noteq> Rejected e"
proof (cases "parseURL env u")
  case None
  then show ?thesis by (simp add: measureLatency_def Let_def)
next
  case (Some urlObj)
  from probes_resolve obtain ping dns where
    pa: "promiseAll2 (getNetworkLatency env (hostname urlObj))
           (if measureDns (mergeOptions opts) then getDnsResolutionTime env (hostname urlObj)
            else Resolved Null) = Resolved (ping, dns)" by blast
  show ?thesis
    by (simp add: measureLatency_def Let_def Some pa split: promise.splits)
qed

lemma measureLatency_status_set:
  assumes "measureLatency env u opts = Resolved m"
  shows "\<exists>n. status m = Val n"
proof (cases "parseURL env u")
  case None
  with assms show ?thesis by (auto simp: measureLatency_def Let_def failure_def)
next
  case (Some urlObj)
  from probes_resolve obtain ping dns where
    pa: "promiseAll2 (getNetworkLatency env (hostname urlObj))
           (if measureDns (mergeOptions opts) then getDnsResolutionTime env (hostname urlObj)
            else Resolved Null) = Resolved (ping, dns)" by blast
  from assms axiosCheck_sets_status [of env u "mergeOptions opts" "initialResults u ping dns"]
  show ?thesis
    by (auto simp: measureLatency_def Let_def Some pa chooseBest_def
             split: promise.splits if_splits)
qed

text \<open>
  C1. The starting URL parses and the server answers the first HEAD request with 301 and
  the header \<open>Location: http://[\<close>, which the URL constructor rejects. The constructor is
  called inside the response callback, so its TypeError is caught by nobody: measureLatency
  neither resolves nor rejects.
\<close>

theorem measureLatency_uncaught_on_bad_location:
  "measureLatency env_bad_location ''http://a.test/'' noOptions = Uncaught ''Invalid URL''"
  by code_simp

text \<open>What the selection of \<open>bestLatency\<close> does, for every measurement of a URL that
  parses: the network ping is selected when it is preferred and truthy.\<close>

lemma measureLatency_bestLatency:
  assumes "measureLatency env u opts = Resolved m" and "parseURL env u = Some urlObj"
  shows "bestLatency m =
           (if preferNetworkPing (mergeOptions opts) \<and> truthyNum (networkPing m)
            then networkPing m else httpLatency m)"
proof -
  from probes_resolve obtain ping dns where
    pa: "promiseAll2 (getNetworkLatency env (hostname urlObj))
           (if measureDns (mergeOptions opts) then getDnsResolutionTime env (hostname urlObj)
            else Resolved Null) = Resolved (ping, dns)" by blast
  have ax: "networkPing (axiosCheck env u (mergeOptions opts) (initialResults u ping dns)) = ping"
    by (simp add: axiosCheck_def initialResults_def split: get_event.splits option.splits)
  from assms ax show ?thesis
    by (auto simp: measureLatency_def Let_def pa chooseBest_def initialResults_def
             split: promise.splits if_splits)
qed

text \<open>
  C5. On a Windows machine whose ping reports \<open>Average = 0ms\<close>, with the default
  configuration (\<open>preferNetworkPing\<close> set): \<open>networkPing\<close> is 0, not null, and
  \<open>bestLatency\<close> is the HTTP latency 12.
\<close>

theorem measureLatency_zero_ping_selects_http:
  "measureLatency env_zero_ping ''http://a.test/'' noOptions =
     Resolved \<lparr>m_url = ''http://a.test/'', error = Undefined, networkPing = Val 0,
               httpLatency = Val 12, dnsTime = Val 3, status = Val 200,
               finalUrl = Val ''http://a.test/'', bestLatency = Val 12\<rparr>"
  by code_simp

text \<open>
  C6, as the claim states it, fails: HEAD fails (\<open>socket hang up\<close>), the GET fallback is
  answered with 200 after 40 ms, and the measurement carries \<open>httpLatency = 40\<close>, the
  elapsed time of the GET.
\<close>

theorem get_fallback_timing_counterexample:
  "performHeadRequest env_head_down ''http://a.test/'' 3000 5 = Rejected ''socket hang up''
   \<and> axiosGet env_head_down ''http://a.test/'' \<lparr>gc_timeout = 3000, gc_maxRedirects = 5\<rparr>
       = GetResponse 200 (Some (Val ''http://a.test/'')) 40
   \<and> measureLatency env_head_down ''http://a.test/'' noOptions =
       Resolved \<lparr>m_url = ''http://a.test/'', error = Undefined, networkPing = Val (81 / 8),
                 httpLatency = Val 40, dnsTime = Val 3, status = Val 200,
                 finalUrl = Val ''http://a.test/'', bestLatency = Val (81 / 8)\<rparr>"
  by code_simp

text \<open>
  C6, amended. When the HEAD path is taken and fails (its promise is rejected),
  measureLatency resolves, and what the GET fallback did decides two fields: after a
  response, \<open>httpLatency\<close> is the elapsed time of the GET and \<open>status\<close> is the status of the
  response (0 when the response carries no \<open>res\<close> object to read the final URL from); after
  a failed GET, \<open>httpLatency\<close> is still null and \<open>status\<close> is 0.
\<close>

theorem get_fallback_records_get_elapsed:
  assumes "useHeadRequest (mergeOptions opts)"
      and "performHeadRequest env u (timeout (mergeOptions opts))
             (maxRedirects (mergeOptions opts)) = Rejected e"
  shows "\<exists>m. measureLatency env u opts = Resolved m \<and>
           (case axiosGet env u \<lparr>gc_timeout = timeout (mergeOptions opts),
                                  gc_maxRedirects = maxRedirects (mergeOptions opts)\<rparr> of
              GetResponse st res dt \<Rightarrow>
                httpLatency m = Val dt \<and> status m = Val (if res = None then 0 else st)
            | GetError err \<Rightarrow> httpLatency m = Null \<and> status m = Val 0)"
proof -
  from measureLatency_fallback [OF assms] obtain ping dns where
    m: "measureLatency env u opts =
          Resolved (chooseBest (mergeOptions opts)
            (axiosCheck env u (mergeOptions opts) (initialResults u ping dns)))" by blast
  show ?thesis
    unfolding m
    by (simp add: axiosCheck_def initialResults_def split: get_event.splits option.splits)
qed

theorem get_fallback_records_get_elapsed_witness:
  "useHeadRequest (mergeOptions noOptions)
   \<and> performHeadRequest env_head_down ''http://a.test/'' (timeout (mergeOptions noOptions))
        (maxRedirects (mergeOptions noOptions)) = Rejected ''socket hang up''
   \<and> (\<exists>m. measureLatency env_head_down ''http://a.test/'' noOptions = Resolved m
          \<and> httpLatency m = Val 40 \<and> status m = Val 200)"
proof -
  have h1: "useHeadRequest (mergeOptions noOptions)" by code_simp
  have h2: "performHeadRequest env_head_down ''http://a.test/'' (timeout (mergeOptions noOptions))
        (maxRedirects (mergeOptions noOptions)) = Rejected ''socket hang up''" by code_simp
  have g: "axiosGet env_head_down ''http://a.test/''
             \<lparr>gc_timeout = timeout (mergeOptions noOptions),
              gc_maxRedirects = maxRedirects (mergeOptions noOptions)\<rparr>
           = GetResponse 200 (Some (Val ''http://a.test/'')) 40" by code_simp
  from get_fallback_records_get_elapsed [OF h1 h2] h1 h2 show ?thesis
    by (simp add: g)
qed

text \<open>
  C4, as the claim states it, fails in two ways.

  \<^item> For the 3xx codes that are not among the five the source follows: a 304 without
    \<open>Location\<close> is the final answer of the HEAD probe, and the measurement carries the
    status 304 and the timing of the HEAD request (7 ms), not those of the GET (200 after
    40 ms).
  \<^item> For a chain that leaves the port of the starting URL: \<open>http://a.test/\<close> redirects to
    \<open>https://a.test/\<close>, whose server answers 200 on port 443. makeRequest sends the second
    request with the https module to port 80, the port it derived from the starting URL,
    so the request fails and the HEAD probe is rejected: a chain of one redirect does not
    resolve to the status of its final hop.
\<close>

theorem head_chain_counterexample:
  "headRequest env_not_modified 0
       \<lparr>secure = False, ho_hostname = ''a.test'', ho_path = ''/'', ho_port = 80,
        ho_timeout = 3000\<rparr> = HeadResponse 304 None 7
   \<and> performHeadRequest env_not_modified ''http://a.test/'' 3000 5 =
       Resolved \<lparr>hr_time = 7, hr_status = 304, hr_finalUrl = Val ''http://a.test/'',
                 hr_error = Undefined\<rparr>
   \<and> measureLatency env_not_modified ''http://a.test/'' noOptions =
       Resolved \<lparr>m_url = ''http://a.test/'', error = Undefined, networkPing = Val (81 / 8),
                 httpLatency = Val 7, dnsTime = Val 3, status = Val 304,
                 finalUrl = Val ''http://a.test/'', bestLatency = Val (81 / 8)\<rparr>
   \<and> headRequest env_https_redirect 0
       \<lparr>secure = False, ho_hostname = ''a.test'', ho_path = ''/'', ho_port = 80,
        ho_timeout = 3000\<rparr> = HeadResponse 301 (Some ''https://a.test/'') 5
   \<and> resolveURL env_https_redirect ''https://a.test/'' ''http://a.test/''
       = Some ''https://a.test/''
   \<and> headRequest env_https_redirect 1
       \<lparr>secure = True, ho_hostname = ''a.test'', ho_path = ''/'', ho_port = 443,
        ho_timeout = 3000\<rparr> = HeadResponse 200 None 9
   \<and> performHeadRequest env_https_redirect ''http://a.test/'' 3000 5 = Rejected ''EPROTO''"
  by code_simp

text \<open>
  C4, amended in two places: ``a 3xx response'' becomes ``a response with one of the codes
  301, 302, 303, 307, 308'', and the chain is one whose requests are all answered on the
  port of the starting URL. Every request of a chain is sent to the port
  \<open>startPort env (hd us)\<close> that performHeadRequest derives from the protocol of the starting
  URL (443 for \<open>https:\<close>, 80 otherwise); \<open>redirectsTo\<close>, \<open>answersWith\<close> and
  \<open>locationMissing\<close> below speak of the answers to the requests sent there. Nothing is
  stated about a chain that needs another port (a URL with a port of its own, or a change
  between http and https along the chain).

  Let \<open>us\<close> be a chain of URLs, each answered with one of the five codes and a non-empty
  \<open>Location\<close> that resolves, against the URL just requested, to the next one, and let the
  HEAD path be enabled.

  \<^item> If the chain has at most \<open>maxRedirects\<close> redirects and its last URL is answered with a
    status \<open>s\<close> that is not one of the five codes, measureLatency resolves with status \<open>s\<close>
    and with the last URL as \<open>finalUrl\<close>.
  \<^item> If the chain has exactly \<open>maxRedirects\<close> redirects and its last URL is answered with
    one of the five codes again (redirect number \<open>maxRedirects + 1\<close>), the HEAD probe is
    rejected with \<open>Too many redirects\<close> and measureLatency resolves with what the GET path
    computes.
  \<^item> If the chain has fewer than \<open>maxRedirects\<close> redirects and its last URL is answered
    with one of the five codes and no (or an empty) \<open>Location\<close>, the HEAD probe is rejected
    with \<open>Redirect location missing\<close> and measureLatency resolves with what the GET path
    computes.
\<close>

theorem head_redirect_chain:
  assumes "useHeadRequest (mergeOptions opts)"
      and "redirectChain env (startPort env (hd us)) (timeout (mergeOptions opts)) 0 us"
  shows
    "(int (length us) \<le> maxRedirects (mergeOptions opts) + 1
        \<and> answersWith env (startPort env (hd us)) (timeout (mergeOptions opts))
             (length us - 1) (last us) s
        \<and> \<not> isRedirect s
      \<longrightarrow> (\<exists>m. measureLatency env (hd us) opts = Resolved m \<and> status m = Val s
                \<and> finalUrl m = Val (last us)))
     \<and> (int (length us) = maxRedirects (mergeOptions opts) + 1
        \<and> answersWith env (startPort env (hd us)) (timeout (mergeOptions opts))
             (length us - 1) (last us) s
        \<and> isRedirect s
      \<longrightarrow> performHeadRequest env (hd us) (timeout (mergeOptions opts))
              (maxRedirects (mergeOptions opts)) = Rejected ''Too many redirects''
          \<and> (\<exists>ping dns. measureLatency env (hd us) opts =
                Resolved (chooseBest (mergeOptions opts)
                  (axiosCheck env (hd us) (mergeOptions opts)
                     (initialResults (hd us) ping dns)))))
     \<and> (int (length us) \<le> maxRedirects (mergeOptions opts)
        \<and> locationMissing env (startPort env (hd us)) (timeout (mergeOptions opts))
             (length us - 1) (last us)
      \<longrightarrow> performHeadRequest env (hd us) (timeout (mergeOptions opts))
              (maxRedirects (mergeOptions opts)) = Rejected ''Redirect location missing''
          \<and> (\<exists>ping dns. measureLatency env (hd us) opts =
                Resolved (chooseBest (mergeOptions opts)
                  (axiosCheck env (hd us) (mergeOptions opts)
                     (initialResults (hd us) ping dns)))))"
proof (intro conjI impI)
  assume a: "int (length us) \<le> maxRedirects (mergeOptions opts) + 1
        \<and> answersWith env (startPort env (hd us)) (timeout (mergeOptions opts))
             (length us - 1) (last us) s
        \<and> \<not> isRedirect s"
  then obtain t where
    h: "performHeadRequest env (hd us) (timeout (mergeOptions opts))
          (maxRedirects (mergeOptions opts))
        = Resolved \<lparr>hr_time = t, hr_status = s, hr_finalUrl = Val (last us),
                    hr_error = Undefined\<rparr>"
    using performHeadRequest_chain_resolves [OF assms(2)] by blast
  from a answersWithD chain_parses [OF assms(2)]
  have p: "parseURL env (hd us) \<noteq> None" by blast
  from measureLatency_head [OF assms(1) h p]
  show "\<exists>m. measureLatency env (hd us) opts = Resolved m \<and> status m = Val s
           \<and> finalUrl m = Val (last us)" by auto
next
  assume a: "int (length us) = maxRedirects (mergeOptions opts) + 1
        \<and> answersWith env (startPort env (hd us)) (timeout (mergeOptions opts))
             (length us - 1) (last us) s
        \<and> isRedirect s"
  then have r: "performHeadRequest env (hd us) (timeout (mergeOptions opts))
      (maxRedirects (mergeOptions opts)) = Rejected ''Too many redirects''"
    using performHeadRequest_chain_too_many [OF assms(2)] by blast
  then show "performHeadRequest env (hd us) (timeout (mergeOptions opts))
      (maxRedirects (mergeOptions opts)) = Rejected ''Too many redirects''" .
  from measureLatency_fallback [OF assms(1) r]
  show "\<exists>ping dns. measureLatency env (hd us) opts =
          Resolved (chooseBest (mergeOptions opts)
            (axiosCheck env (hd us) (mergeOptions opts) (initialResults (hd us) ping dns)))" .
next
  assume a: "int (length us) \<le> maxRedirects (mergeOptions opts)
        \<and> locationMissing env (startPort env (hd us)) (timeout (mergeOptions opts))
             (length us - 1) (last us)"
  then have r: "performHeadRequest env (hd us) (timeout (mergeOptions opts))
      (maxRedirects (mergeOptions opts)) = Rejected ''Redirect location missing''"
    using performHeadRequest_chain_location_missing [OF assms(2)] by blast
  then show "performHeadRequest env (hd us) (timeout (mergeOptions opts))
      (maxRedirects (mergeOptions opts)) = Rejected ''Redirect location missing''" .
  from measureLatency_fallback [OF assms(1) r]
  show "\<exists>ping dns. measureLatency env (hd us) opts =
          Resolved (chooseBest (mergeOptions opts)
            (axiosCheck env (hd us) (mergeOptions opts) (initialResults (hd us) ping dns)))" .
qed

theorem head_redirect_chain_witness:
  "useHeadRequest (mergeOptions noOptions)
   \<and> redirectChain env_one_redirect 80 3000 0 [''http://a.test/'', ''http://a.test/b'']
   \<and> answersWith env_one_redirect 80 3000 1 ''http://a.test/b'' 200
   \<and> \<not> isRedirect 200
   \<and> (\<exists>m. measureLatency env_one_redirect ''http://a.test/'' noOptions = Resolved m
          \<and> status m = Val 200 \<and> finalUrl m = Val ''http://a.test/b'')
   \<and> useHeadRequest (mergeOptions ex_one_redirect_opts)
   \<and> maxRedirects (mergeOptions ex_one_redirect_opts) = 1
   \<and> redirectChain env_redirects 80 3000 0 [''http://a.test/'', ''http://a.test/b'']
   \<and> answersWith env_redirects 80 3000 1 ''http://a.test/b'' 302
   \<and> isRedirect 302
   \<and> performHeadRequest env_redirects ''http://a.test/'' 3000 1
        = Rejected ''Too many redirects''
   \<and> (\<exists>ping dns. measureLatency env_redirects ''http://a.test/'' ex_one_redirect_opts =
          Resolved (chooseBest (mergeOptions ex_one_redirect_opts)
            (axiosCheck env_redirects ''http://a.test/'' (mergeOptions ex_one_redirect_opts)
               (initialResults ''http://a.test/'' ping dns))))
   \<and> redirectChain env_no_location 80 3000 0 [''http://a.test/'']
   \<and> locationMissing env_no_location 80 3000 0 ''http://a.test/''
   \<and> performHeadRequest env_no_location ''http://a.test/'' 3000 5
        = Rejected ''Redirect location missing''
   \<and> (\<exists>ping dns. measureLatency env_no_location ''http://a.test/'' noOptions =
          Resolved (chooseBest (mergeOptions noOptions)
            (axiosCheck env_no_location ''http://a.test/'' (mergeOptions noOptions)
               (initialResults ''http://a.test/'' ping dns))))"
proof -
  let ?a = "''http://a.test/''" and ?b = "''http://a.test/b''"
  have cfg: "useHeadRequest (mergeOptions noOptions)" "timeout (mergeOptions noOptions) = 3000"
    "maxRedirects (mergeOptions noOptions) = 5"
    "useHeadRequest (mergeOptions ex_one_redirect_opts)"
    "timeout (mergeOptions ex_one_redirect_opts) = 3000"
    "maxRedirects (mergeOptions ex_one_redirect_opts) = 1"
    by (simp_all add: mergeOptions_def noOptions_def defaults_def ex_one_redirect_opts_def)
  have port: "startPort env_one_redirect ?a = 80" "startPort env_redirects ?a = 80"
    "startPort env_no_location ?a = 80"
    by code_simp+
  have c1: "redirectChain env_one_redirect 80 3000 0 [?a, ?b]" by code_simp
  have a1: "answersWith env_one_redirect 80 3000 1 ?b 200" by code_simp
  have r1: "\<not> isRedirect 200" by code_simp
  have c2: "redirectChain env_redirects 80 3000 0 [?a, ?b]" by code_simp
  have a2: "answersWith env_redirects 80 3000 1 ?b 302" by code_simp
  have r2: "isRedirect 302" by code_simp
  have c3: "redirectChain env_no_location 80 3000 0 [?a]" by simp
  have l3: "locationMissing env_no_location 80 3000 0 ?a" by code_simp
  from head_redirect_chain [of noOptions env_one_redirect "[?a, ?b]" 200] cfg port c1 a1 r1
  have w1: "\<exists>m. measureLatency env_one_redirect ?a noOptions = Resolved m
              \<and> status m = Val 200 \<and> finalUrl m = Val ?b"
    by simp
  from head_redirect_chain [of ex_one_redirect_opts env_redirects "[?a, ?b]" 302]
    cfg port c2 a2 r2
  have w2: "performHeadRequest env_redirects ?a 3000 1 = Rejected ''Too many redirects''
     \<and> (\<exists>ping dns. measureLatency env_redirects ?a ex_one_redirect_opts =
          Resolved (chooseBest (mergeOptions ex_one_redirect_opts)
            (axiosCheck env_redirects ?a (mergeOptions ex_one_redirect_opts)
               (initialResults ?a ping dns))))"
    by simp
  from head_redirect_chain [of noOptions env_no_location "[?a]" 0] cfg port c3 l3
  have w3: "performHeadRequest env_no_location ?a 3000 5
              = Rejected ''Redirect location missing''
     \<and> (\<exists>ping dns. measureLatency env_no_location ?a noOptions =
          Resolved (chooseBest (mergeOptions noOptions)
            (axiosCheck env_no_location ?a (mergeOptions noOptions)
               (initialResults ?a ping dns))))"
    by simp
  from cfg c1 a1 r1 w1 c2 a2 r2 w2 c3 l3 w3 show ?thesis by blast
qed

section \<open>Properties of the validator session\<close>

lemma catchBlock_frames:
  "catchBlock env st req = Completed st' frames \<Longrightarrow>
   length frames \<le> 1 \<and> (\<forall>f\<in>set frames. f_status f = Bad \<and> f_latency f = 0)"
  by (auto simp: catchBlock_def Let_def badFrame_def split: if_splits)

lemma catchBlock_completes: "\<exists>st' frames. catchBlock env st req = Completed st' frames"
  by (simp add: catchBlock_def Let_def)

text \<open>What holds of every run of the handler that completes: at most one frame is sent,
  and a Bad frame carries the latency 0.\<close>

lemma onValidate_at_most_one_frame:
  assumes "onValidate env st req = Some (Completed st' frames)"
  shows "length frames \<le> 1"
  using assms
  by (auto simp: onValidate_def split: option.splits promise.splits if_splits
           dest: catchBlock_frames)

lemma onValidate_bad_latency_zero:
  assumes "onValidate env st req = Some (Completed st' frames)"
      and "f \<in> set frames" and "f_status f = Bad"
  shows "f_latency f = 0"
  using assms
  by (auto simp: onValidate_def replyFrame_def badFrame_def goodFrame_def
           split: option.splits promise.splits if_splits dest: catchBlock_frames)

text \<open>The handler after a probe that returned, and the status of the frame its try
  block builds.\<close>

lemma onValidate_resolved:
  "measureAccurateLatency env (vr_url req) = Some (Resolved pr) \<Longrightarrow>
   onValidate env st req =
     (if v_send env (replyFrame env st req pr)
      then Some (Completed (creditValidation env st) [replyFrame env st req pr])
      else Some (catchBlock env (creditValidation env st) req))"
  by (simp add: onValidate_def)

lemma replyFrame_Good:
  "f_status (replyFrame env st req pr) = Good \<longleftrightarrow>
     responseStatusOf env (vr_url req) (pr_status pr) \<noteq> 0
     \<and> \<not> (400 \<le> responseStatusOf env (vr_url req) (pr_status pr)
          \<and> responseStatusOf env (vr_url req) (pr_status pr) < 600)"
  by (auto simp: replyFrame_def isBadStatus_def badFrame_def goodFrame_def)

lemma replyFrame_Bad:
  "f_status (replyFrame env st req pr) = Bad \<longleftrightarrow>
     responseStatusOf env (vr_url req) (pr_status pr) = 0
     \<or> (400 \<le> responseStatusOf env (vr_url req) (pr_status pr)
        \<and> responseStatusOf env (vr_url req) (pr_status pr) < 600)"
  by (auto simp: replyFrame_def isBadStatus_def badFrame_def goodFrame_def)

lemma ex_venv_sel:
  "v_parseURL ex_venv = ex_parse" "v_tcpConnect ex_venv = (\<lambda>h p. TcpConnect 20)"
  "v_fetch ex_venv = (\<lambda>u. None)" "v_send ex_venv = (\<lambda>f. True)"
  "v_sign ex_venv = (\<lambda>m. ''sig:'' @ m)" "v_now ex_venv = 1000"
  by (simp_all add: ex_venv_def)

lemma venv_999_sel:
  "v_parseURL venv_999 = ex_parse" "v_tcpConnect venv_999 = (\<lambda>h p. TcpConnect 20)"
  "v_fetch venv_999 = (\<lambda>u. None)" "v_send venv_999 = (\<lambda>f. True)"
  "v_sign venv_999 = (\<lambda>m. ''sig:'' @ m)" "v_now venv_999 = 1000"
  by (simp_all add: venv_999_def ex_venv_def)

lemma venv_send_throws_sel:
  "v_parseURL venv_send_throws = ex_parse"
  "v_tcpConnect venv_send_throws = (\<lambda>h p. TcpConnect 20)"
  "v_fetch venv_send_throws = (\<lambda>u. None)"
  "v_send venv_send_throws = (\<lambda>f. f_status f = Bad)"
  by (simp_all add: venv_send_throws_def ex_venv_def)

lemma venv_redirect_loop_sel:
  "v_parseURL venv_redirect_loop = ex_parse"
  "v_tcpConnect venv_redirect_loop = (\<lambda>h p. TcpConnect 20)"
  by (simp_all add: venv_redirect_loop_def ex_venv_def)

lemma getStatusCode_999:
  "getStatusCode venv_999 0 ''http://a.test/''
     = Some (Resolved \<lparr>sr_time = 35, sr_status = 999\<rparr>)"
  by (subst getStatusCode.simps)
     (simp add: venv_999_def ex_venv_def ex_parse_def isRedirect_def)

lemma getStatusCode_200:
  "getStatusCode ex_venv 0 ''http://a.test/''
     = Some (Resolved \<lparr>sr_time = 35, sr_status = 200\<rparr>)"
  by (subst getStatusCode.simps)
     (simp add: ex_venv_def ex_parse_def isRedirect_def)

lemma getStatusCode_send_throws:
  "getStatusCode venv_send_throws 0 ''http://a.test/''
     = Some (Resolved \<lparr>sr_time = 35, sr_status = 200\<rparr>)"
  by (subst getStatusCode.simps)
     (simp add: venv_send_throws_def ex_venv_def ex_parse_def isRedirect_def)

lemma measureAccurateLatency_send_throws:
  "measureAccurateLatency venv_send_throws ''http://a.test/''
     = Some (Resolved \<lparr>pr_time = 20, pr_status = 200\<rparr>)"
  by (simp add: measureAccurateLatency_def getTcpLatency_def validPort_def orTime_def
        getStatusCode_send_throws venv_send_throws_sel ex_parse_def ex_url_a_def)

lemma measureAccurateLatency_999:
  "measureAccurateLatency venv_999 ''http://a.test/''
     = Some (Resolved \<lparr>pr_time = 20, pr_status = 999\<rparr>)"
  by (simp add: measureAccurateLatency_def getTcpLatency_def validPort_def orTime_def
        getStatusCode_999 venv_999_sel ex_parse_def ex_url_a_def)

lemma measureAccurateLatency_200:
  "measureAccurateLatency ex_venv ''http://a.test/''
     = Some (Resolved \<lparr>pr_time = 20, pr_status = 200\<rparr>)"
  by (simp add: measureAccurateLatency_def getTcpLatency_def validPort_def orTime_def
        getStatusCode_200 ex_venv_sel ex_parse_def ex_url_a_def)

text \<open>
  C2, as the claim states it, fails for a status outside 200..399 that is neither 0 nor in
  400..599: the server answers 999, and the handler sends one frame with the status Good
  and the measured latency.
\<close>

theorem onValidate_status_999_counterexample:
  "measureAccurateLatency venv_999 (vr_url ex_request)
     = Some (Resolved \<lparr>pr_time = 20, pr_status = 999\<rparr>)
   \<and> onValidate venv_999 ex_session ex_request
     = Some (Completed
         (ex_session\<lparr>s_pendingPayouts := 100, s_lastPingTime := Val 1000\<rparr>)
         [\<lparr>f_callbackId = ''cb-1'', f_status = Good, f_latency = 20,
           f_validatorId = Val ''validator-1'', f_signedMessage = ''sig:Replying to cb-1'',
           f_location = ''Pune, MH, IN'', f_ipAddress = ''203.0.113.7''\<rparr>])"
  by (simp add: measureAccurateLatency_999 onValidate_def ex_request_def ex_session_def
        responseStatusOf_def isBadStatus_def goodFrame_def COST_PER_VALIDATION_def
        replyFrame_def creditValidation_def venv_999_sel)

text \<open>
  C2, amended: the range 200..399 becomes ``not 0 and not in 400..599'', and the fatal
  error is an exception raised by the \<open>send\<close> of the try block. Let the probe of a request
  complete with \<open>pr\<close>, let \<open>rs\<close> be the status the handler obtains from it
  (\<open>responseStatusOf\<close>: the probe's status, or the status of the plain fetch when the
  probe's is 0), and let \<open>replyFrame env st req pr\<close> be the frame the try block hands to
  \<open>send\<close>. Then the handler completes and sends at most one frame, and

  \<^item> a frame it sends is Good if and only if \<open>rs\<close> is neither 0 nor in 400..599 and the
    send of the reply did not throw; it is Bad if and only if \<open>rs\<close> is 0 or in 400..599 or
    that send threw;
  \<^item> when the send of the reply does not throw, the reply is the one frame sent;
  \<^item> when it throws, the catch block builds a Bad frame with latency 0 for the same
    callback id, and that frame is the one frame sent, unless its send throws as well, in
    which case nothing is sent.
\<close>

theorem onValidate_classification:
  assumes "measureAccurateLatency env (vr_url req) = Some (Resolved pr)"
      and "rs = responseStatusOf env (vr_url req) (pr_status pr)"
  shows "\<exists>st' frames. onValidate env st req = Some (Completed st' frames)
           \<and> length frames \<le> 1
           \<and> (\<forall>f\<in>set frames.
                 (f_status f = Good \<longleftrightarrow>
                    rs \<noteq> 0 \<and> \<not> (400 \<le> rs \<and> rs < 600)
                    \<and> v_send env (replyFrame env st req pr))
               \<and> (f_status f = Bad \<longleftrightarrow>
                    rs = 0 \<or> (400 \<le> rs \<and> rs < 600)
                    \<or> \<not> v_send env (replyFrame env st req pr)))
           \<and> (v_send env (replyFrame env st req pr) \<longrightarrow>
                 frames = [replyFrame env st req pr])
           \<and> (\<not> v_send env (replyFrame env st req pr) \<longrightarrow>
                 (\<exists>b. f_status b = Bad \<and> f_latency b = 0
                    \<and> f_callbackId b = vr_callbackId req
                    \<and> frames = (if v_send env b then [b] else [])))"
proof (cases "v_send env (replyFrame env st req pr)")
  case True
  from onValidate_resolved [OF assms(1), of st] True
  have "onValidate env st req
          = Some (Completed (creditValidation env st) [replyFrame env st req pr])" by simp
  with True replyFrame_Good [of env st req pr] replyFrame_Bad [of env st req pr] assms(2)
  show ?thesis by simp
next
  case False
  let ?st = "creditValidation env st"
  let ?st2 = "?st\<lparr>s_pendingPayouts := s_pendingPayouts ?st + COST_PER_VALIDATION\<rparr>"
  let ?b = "badFrame env ?st2 req"
  have b: "f_status ?b = Bad" "f_latency ?b = 0" "f_callbackId ?b = vr_callbackId req"
    by (simp_all add: badFrame_def)
  from onValidate_resolved [OF assms(1), of st] False
  have run: "onValidate env st req
          = Some (Completed ?st2 (if v_send env ?b then [?b] else []))"
    by (simp add: catchBlock_def Let_def)
  have fr: "\<forall>f\<in>set (if v_send env ?b then [?b] else []).
              f_status f = Bad \<and> f_status f \<noteq> Good"
    using b by simp
  have "\<exists>b. f_status b = Bad \<and> f_latency b = 0 \<and> f_callbackId b = vr_callbackId req
          \<and> (if v_send env ?b then [?b] else []) = (if v_send env b then [b] else [])"
    using b by blast
  with run False fr show ?thesis by auto
qed

theorem onValidate_classification_witness:
  "measureAccurateLatency ex_venv (vr_url ex_request)
     = Some (Resolved \<lparr>pr_time = 20, pr_status = 200\<rparr>)
   \<and> responseStatusOf ex_venv (vr_url ex_request) 200 = 200
   \<and> v_send ex_venv (replyFrame ex_venv ex_session ex_request \<lparr>pr_time = 20, pr_status = 200\<rparr>)
   \<and> (\<exists>st' f. onValidate ex_venv ex_session ex_request = Some (Completed st' [f])
         \<and> f_status f = Good)
   \<and> measureAccurateLatency venv_send_throws (vr_url ex_request)
     = Some (Resolved \<lparr>pr_time = 20, pr_status = 200\<rparr>)
   \<and> \<not> v_send venv_send_throws
          (replyFrame venv_send_throws ex_session ex_request \<lparr>pr_time = 20, pr_status = 200\<rparr>)
   \<and> (\<exists>st' b. onValidate venv_send_throws ex_session ex_request = Some (Completed st' [b])
         \<and> f_status b = Bad \<and> f_latency b = 0)"
proof -
  let ?pr = "\<lparr>pr_time = 20, pr_status = 200\<rparr>"
  have h1: "measureAccurateLatency ex_venv (vr_url ex_request) = Some (Resolved ?pr)"
    by (simp add: measureAccurateLatency_200 ex_request_def)
  have h2: "200 = responseStatusOf ex_venv (vr_url ex_request) (pr_status ?pr)"
    by (simp add: responseStatusOf_def)
  have h3: "v_send ex_venv (replyFrame ex_venv ex_session ex_request ?pr)"
    by (simp add: ex_venv_sel)
  from onValidate_classification [OF h1 h2, of ex_session] h3
  have w1: "\<exists>st' f. onValidate ex_venv ex_session ex_request = Some (Completed st' [f])
         \<and> f_status f = Good"
    by auto
  have k1: "measureAccurateLatency venv_send_throws (vr_url ex_request) = Some (Resolved ?pr)"
    by (simp add: measureAccurateLatency_send_throws ex_request_def)
  have k2: "200 = responseStatusOf venv_send_throws (vr_url ex_request) (pr_status ?pr)"
    by (simp add: responseStatusOf_def)
  have k3: "\<not> v_send venv_send_throws (replyFrame venv_send_throws ex_session ex_request ?pr)"
    by (simp add: venv_send_throws_sel replyFrame_def responseStatusOf_def isBadStatus_def
          goodFrame_def)
  from onValidate_classification [OF k1 k2, of ex_session] k3
  have w2: "\<exists>st' b. onValidate venv_send_throws ex_session ex_request
              = Some (Completed st' [b]) \<and> f_status b = Bad \<and> f_latency b = 0"
    by (auto simp: venv_send_throws_sel)
  from h1 h2 h3 w1 k1 k3 w2 show ?thesis by simp
qed

lemma getStatusCode_redirect_loop:
  "getStatusCode env hop u = Some r \<Longrightarrow>
   \<not> (env = venv_redirect_loop \<and> u = ''http://a.test/'')"
proof (rule getStatusCode.raw_induct
    [where P = "\<lambda>env hop u r. \<not> (env = venv_redirect_loop \<and> u = ''http://a.test/'')"])
  fix f env hop u r
  assume ih: "\<And>env hop u r. f env hop u = Some r \<Longrightarrow>
                \<not> (env = venv_redirect_loop \<and> u = ''http://a.test/'')"
    and step: "(case v_parseURL env u of
        None \<Rightarrow> Some (Rejected ''Invalid URL'')
      | Some urlObj \<Rightarrow>
          (case v_headRequest env hop
                  \<lparr>so_secure = (protocol urlObj = ''https:''), so_hostname = hostname urlObj,
                   so_path = pathname urlObj @ search urlObj\<rparr> of
             StatusError dt \<Rightarrow> Some (Resolved \<lparr>sr_time = dt, sr_status = 0\<rparr>)
           | StatusTimeout \<Rightarrow> Some (Resolved \<lparr>sr_time = 3000, sr_status = 0\<rparr>)
           | StatusResponse statusCode loc dt \<Rightarrow>
               (if isRedirect statusCode then
                  (case v_resolveURL env
                          (case loc of None \<Rightarrow> ''undefined'' | Some l \<Rightarrow> l) u of
                     None \<Rightarrow> Some (Uncaught ''Invalid URL'')
                   | Some redirectUrl \<Rightarrow> f env (Suc hop) redirectUrl)
                else Some (Resolved \<lparr>sr_time = dt, sr_status = statusCode\<rparr>)))) = Some r"
  show "\<not> (env = venv_redirect_loop \<and> u = ''http://a.test/'')"
  proof
    assume e: "env = venv_redirect_loop \<and> u = ''http://a.test/''"
    with step have "f venv_redirect_loop (Suc hop) ''http://a.test/'' = Some r"
      by (simp add: venv_redirect_loop_def ex_venv_def ex_parse_def isRedirect_def)
    with ih show False by blast
  qed
qed (assumption)

lemma measureAccurateLatency_redirect_loop:
  "measureAccurateLatency venv_redirect_loop ''http://a.test/'' = None"
proof -
  have "getStatusCode venv_redirect_loop 0 ''http://a.test/'' = None"
    using getStatusCode_redirect_loop [of venv_redirect_loop 0 "''http://a.test/''"]
    by (cases "getStatusCode venv_redirect_loop 0 ''http://a.test/''") auto
  then show ?thesis
    by (simp add: measureAccurateLatency_def getTcpLatency_def validPort_def
          venv_redirect_loop_sel ex_parse_def ex_url_a_def)
qed

text \<open>
  C3. The server answers every HEAD request with 301 and a \<open>Location\<close> that leads back to
  the URL just requested. getStatusCode follows the redirect without any bound, so its
  promise never settles, the handler never gets past \<open>await measureAccurateLatency(url)\<close>
  and no frame is sent for the request.
\<close>

theorem onValidate_redirect_loop_never_replies:
  "onValidate venv_redirect_loop ex_session ex_request = None"
  by (simp add: onValidate_def ex_request_def measureAccurateLatency_redirect_loop)


end
